theory Spec2Isabelle
  imports Main
begin

section \<open>Python string operations used by the manager\<close>

text \<open>
  Strings are byte strings; \<open>lower\<close> folds the ASCII letters only.
\<close>

definition lower_char :: "char \<Rightarrow> char" where
  "lower_char c =
     (if (65::nat) \<le> of_char c \<and> of_char c \<le> (90::nat)
      then char_of (of_char c + (32::nat)) else c)"

definition lower :: "string \<Rightarrow> string" where
  "lower s = map lower_char s"

fun startswith :: "string \<Rightarrow> string \<Rightarrow> bool" where
  "startswith s [] = True"
| "startswith [] (p # ps) = False"
| "startswith (c # s) (p # ps) = (c = p \<and> startswith s ps)"

definition endswith :: "string \<Rightarrow> string \<Rightarrow> bool" where
  "endswith s suf = startswith (rev s) (rev suf)"

text \<open>\<open>contains s p\<close> is Python's \<open>p in s\<close>.\<close>

fun contains :: "string \<Rightarrow> string \<Rightarrow> bool" where
  "contains [] p = (p = [])"
| "contains (c # s) p = (startswith (c # s) p \<or> contains s p)"

text \<open>\<open>split_on d s\<close> is \<open>s.split(d)\<close> for a one-character separator.\<close>

fun split_on :: "char \<Rightarrow> string \<Rightarrow> string list" where
  "split_on d [] = [[]]"
| "split_on d (c # s) =
     (if c = d then [] # split_on d s
      else (case split_on d s of [] \<Rightarrow> [[c]] | p # ps \<Rightarrow> (c # p) # ps))"

definition replace_char :: "char \<Rightarrow> char \<Rightarrow> string \<Rightarrow> string" where
  "replace_char a b s = map (\<lambda>c. if c = a then b else c) s"

text \<open>\<open>os.path.basename\<close> on a POSIX path: what follows the last slash.\<close>

definition basename :: "string \<Rightarrow> string" where
  "basename p = last (split_on CHR ''/'' p)"

text \<open>Python truthiness of an optional string: \<open>None\<close> and \<open>''\<close> are false.\<close>

fun truthy :: "string option \<Rightarrow> bool" where
  "truthy None = False"
| "truthy (Some s) = (s \<noteq> [])"

text \<open>\<open>str.strip()\<close>: leading and trailing ASCII whitespace removed.\<close>

definition is_space :: "char \<Rightarrow> bool" where
  "is_space c = (of_char c \<in> {9::nat, 10, 11, 12, 13, 32})"

definition strip :: "string \<Rightarrow> string" where
  "strip s = rev (dropWhile is_space (rev (dropWhile is_space s)))"

section \<open>Directories, packages and collaborators\<close>

text \<open>
  The manager works on one \<open>custom_nodes\<close> directory. A package directory is
  either \<open>custom_nodes/<name>\<close> or \<open>custom_nodes/.disabled/<name>\<close>. Names are
  single path components.
\<close>

datatype location = Root string | Disabled string

fun loc_name :: "location \<Rightarrow> string" where
  "loc_name (Root n) = n"
| "loc_name (Disabled n) = n"

fun in_disabled_dir :: "location \<Rightarrow> bool" where
  "in_disabled_dir (Root n) = False"
| "in_disabled_dir (Disabled n) = True"

text \<open>
  What \<open>cnr_utils.read_cnr_info\<close> returns for a directory (the helper is not part of
  the sources at hand, so its answer is part of the directory's observable content).
\<close>

record cnr_info =
  cnr_id :: string
  cnr_version :: string

text \<open>
  The content of a directory as far as the manager observes it:
  \<open>git_utils.git_url\<close>, \<open>cnr_utils.read_cnr_info\<close>, \<open>project.name\<close> of
  \<open>pyproject.toml\<close> as \<open>unified_enable\<close> reads it, and the names of the entries
  directly inside it (\<open>shutil.move\<close> onto an existing directory moves into it).
\<close>

record dir_content =
  git_url :: "string option"
  read_cnr_info :: "cnr_info option"
  toml_name :: "string option"
  entries :: "string list"

text \<open>
  The file system: the directories listed in \<open>custom_nodes\<close> and in
  \<open>custom_nodes/.disabled\<close>, in \<open>os.listdir\<close> order. Plain files in these two
  directories are not modelled, and file-system operations do not fail for reasons
  outside the model (locks, permissions).
\<close>

record fs =
  root_dirs :: "(string \<times> dir_content) list"
  disabled_dirs :: "(string \<times> dir_content) list"

text \<open>\<open>InstalledNodePackage\<close> of \<open>node_package.py\<close>.\<close>

record pkg =
  pkg_id :: string
  fullpath :: location
  disabled :: bool
  version :: string
  repo_url :: "string option"

definition is_unknown :: "pkg \<Rightarrow> bool" where
  "is_unknown x = (version x = ''unknown'')"

definition is_nightly :: "pkg \<Rightarrow> bool" where
  "is_nightly x = (version x = ''nightly'')"

definition is_from_cnr :: "pkg \<Rightarrow> bool" where
  "is_from_cnr x = (\<not> is_unknown x \<and> \<not> is_nightly x)"

definition is_enabled_pkg :: "pkg \<Rightarrow> bool" where
  "is_enabled_pkg x = (\<not> disabled x)"

text \<open>What the registry answers for a package name (\<open>cnr_utils.get_nodepack\<close>).\<close>

record nodepack =
  repository :: "string option"
  latest_version :: "string option"

text \<open>What \<open>cnr_utils.install_node\<close> answers: the download URL and the resolved version.\<close>

record node_version =
  download_url :: string
  nv_version :: string

text \<open>
  A deferred post-install step: a call of \<open>execute_install_script\<close> with its first
  argument and the path, or a call of \<open>reserve_cnr_switch\<close> with the target, the
  archive URL, the path of the enabled directory and the destination path.
\<close>

datatype job = Job string "location option" | Reserve string string location string

text \<open>What the \<open>git\<close> commands of \<open>repo_update\<close> come to.\<close>

datatype update_step = NoDefaultBranch | NoRemote | NotUpdatable string | UpToDate | Pulled string

text \<open>
  The collaborators whose code is outside the sources at hand are parameters:
  \<open>cnr_utils.normalize_package_name\<close>, \<open>git_utils.compact_url\<close>,
  \<open>manager_util.StrictVersion\<close> (the parsed triple, \<open>None\<close> when the constructor
  raises), the registry lookups \<open>cnr_utils.get_nodepack\<close>,
  \<open>cnr_utils.get_nodepack_by_url\<close> (the registry id) and \<open>cnr_utils.install_node\<close>,
  the download and extraction of an archive (the content of a fresh directory after
  extraction and the writing of \<open>.tracking\<close>, \<open>None\<close> for an empty archive; and the
  content after extraction over an existing directory and removal of the stale files),
  \<open>git clone\<close> (given the URL and what is at the destination: the content of the
  new working tree, or the text of the exception when cloning fails),
  \<open>checkout_git_commit\<close> (the content after the checkout), the \<open>git\<close> commands of
  \<open>repo_update\<close> (how they end, with the name of the branch or the URL of the first
  remote, and the content of the working tree afterwards), the outcome of the
  dependency installer \<open>execute_install_script\<close>, the predicate \<open>is_valid_url\<close>
  (it rests on \<open>urlparse\<close> and a regular expression), the configured security
  level (\<open>SecurityLevel.weak.value\<close> is taken to be the string \<open>weak\<close>, as the
  refusal message has it), and the path \<open>get_default_custom_nodes_path()\<close> of \<open>custom_nodes\<close>.
\<close>

record env =
  normalize_package_name :: "string \<Rightarrow> string"
  compact_url :: "string \<Rightarrow> string"
  StrictVersion :: "string \<Rightarrow> (nat \<times> nat \<times> nat) option"
  get_nodepack :: "string \<Rightarrow> nodepack option"
  get_nodepack_by_url :: "string \<Rightarrow> string option"
  install_node :: "string \<Rightarrow> string option \<Rightarrow> node_version option"
  archive :: "string \<Rightarrow> dir_content option"
  extract_over :: "dir_content \<Rightarrow> dir_content \<Rightarrow> dir_content"
  clone :: "string \<Rightarrow> dir_content option \<Rightarrow> string + dir_content"
  checkout :: "dir_content \<Rightarrow> string \<Rightarrow> dir_content"
  git_update :: "dir_content \<Rightarrow> update_step \<times> dir_content"
  execute_install_script :: "string \<Rightarrow> location \<Rightarrow> bool"
  is_valid_url :: "string \<Rightarrow> bool"
  security_level :: string
  custom_nodes_path :: string

text \<open>
  \<open>os.path.join\<close> with a relative second part, and the path of a directory as the
  string the source prints.
\<close>

definition path_join :: "string \<Rightarrow> string \<Rightarrow> string" where
  "path_join a b = (if a = [] then b else if last a = CHR ''/'' then a @ b else a @ ''/'' @ b)"

fun path_str :: "env \<Rightarrow> location \<Rightarrow> string" where
  "path_str E (Root n) = path_join (custom_nodes_path E) n"
| "path_str E (Disabled n) = path_join (path_join (custom_nodes_path E) ''.disabled'') n"

text \<open>
  Exceptions. \<open>Unmodelled\<close> is not a Python exception: it marks a destination name
  that is not a single plain path component, where the model stops.
\<close>

datatype exn = ValueError | FileNotFoundError | ShutilError | TypeError | Unmodelled

type_synonym 'a result = "exn + 'a"

text \<open>Comparison of two parsed versions, field by field.\<close>

fun ver_less :: "nat \<times> nat \<times> nat \<Rightarrow> nat \<times> nat \<times> nat \<Rightarrow> bool" where
  "ver_less (a1, b1, c1) (a2, b2, c2) =
     (a1 < a2 \<or> (a1 = a2 \<and> (b1 < b2 \<or> (b1 = b2 \<and> c1 < c2))))"

text \<open>\<open>StrictVersion(a) < StrictVersion(b)\<close>; either constructor may raise.\<close>

definition sv_less :: "env \<Rightarrow> string \<Rightarrow> string \<Rightarrow> bool result" where
  "sv_less E a b =
     (case StrictVersion E a of None \<Rightarrow> Inl ValueError
      | Some va \<Rightarrow> (case StrictVersion E b of None \<Rightarrow> Inl ValueError
                   | Some vb \<Rightarrow> Inr (ver_less va vb)))"

definition sv_eq :: "env \<Rightarrow> string \<Rightarrow> string \<Rightarrow> bool result" where
  "sv_eq E a b =
     (case StrictVersion E a of None \<Rightarrow> Inl ValueError
      | Some va \<Rightarrow> (case StrictVersion E b of None \<Rightarrow> Inl ValueError
                   | Some vb \<Rightarrow> Inr (va = vb)))"

section \<open>Identity classification\<close>

text \<open>The dictionary \<open>resolve_from_path\<close> returns: keys \<open>id\<close> and \<open>ver\<close>; it never has a key \<open>url\<close>.\<close>

record path_info =
  info_id :: string
  info_ver :: string
  info_url :: "string option"

definition resolve_from_path :: "env \<Rightarrow> dir_content \<Rightarrow> path_info option" where
  "resolve_from_path E c =
     (if truthy (git_url c)
      then Some \<lparr>info_id = compact_url E (the (git_url c)), info_ver = ''nightly'', info_url = None\<rparr>
      else (case read_cnr_info c of
              Some info \<Rightarrow> Some \<lparr>info_id = cnr_id info, info_ver = cnr_version info, info_url = None\<rparr>
            | None \<Rightarrow> None))"

definition from_fullpath :: "env \<Rightarrow> location \<Rightarrow> dir_content \<Rightarrow> pkg" where
  "from_fullpath E path c =
     (let module_name = loc_name path;
          parent_disabled = in_disabled_dir path;
          dis = (endswith module_name ''.disabled'' \<or> parent_disabled);
          node_id0 = (if endswith module_name ''.disabled''
                      then take (length module_name - 9) module_name else module_name);
          info = resolve_from_path E c;
          parts = split_on CHR ''@'' module_name;
          tagged = (dis \<and> parent_disabled \<and> CHR ''@'' \<in> set module_name \<and> length parts = 2);
          node_id1 = (if tagged then parts ! 0 else node_id0);
          version_from_dirname =
            (if tagged then Some (replace_char CHR ''_'' CHR ''.'' (parts ! 1)) else None)
      in case info of
           None \<Rightarrow>
             \<lparr>pkg_id = node_id1, fullpath = path, disabled = dis,
              version = (if truthy version_from_dirname then the version_from_dirname else ''unknown''),
              repo_url = None\<rparr>
         | Some i \<Rightarrow>
             (let ver = (if truthy version_from_dirname then the version_from_dirname else info_ver i)
              in \<lparr>pkg_id = info_id i, fullpath = path, disabled = dis, version = ver,
                  repo_url = (if ver = ''nightly'' then git_url c
                              else if truthy (info_url i) then info_url i else None)\<rparr>))"

section \<open>The index\<close>

text \<open>
  \<open>installed_node_packages\<close>: a dictionary from id to the list of its packages,
  in insertion order.
\<close>

type_synonym index = "(string \<times> pkg list) list"

fun index_append :: "string \<Rightarrow> pkg \<Rightarrow> index \<Rightarrow> index" where
  "index_append k v [] = [(k, [v])]"
| "index_append k v ((k', vs) # d) =
     (if k = k' then (k', vs @ [v]) # d else (k', vs) # index_append k v d)"

definition index_get :: "index \<Rightarrow> string \<Rightarrow> pkg list" where
  "index_get d k = (case map_of d k of None \<Rightarrow> [] | Some vs \<Rightarrow> vs)"

text \<open>One step of either loop of \<open>reload\<close>: classify the directory and index it.\<close>

definition index_add :: "env \<Rightarrow> location \<Rightarrow> dir_content \<Rightarrow> index \<Rightarrow> index" where
  "index_add E path c d =
     (let node_package = from_fullpath E path c;
          d1 = index_append (pkg_id node_package) node_package d;
          normalized_id = normalize_package_name E (pkg_id node_package)
      in if is_from_cnr node_package \<and> normalized_id \<noteq> pkg_id node_package
         then index_append normalized_id node_package d1 else d1)"

fun reload_root :: "env \<Rightarrow> (string \<times> dir_content) list \<Rightarrow> index \<Rightarrow> index" where
  "reload_root E [] d = d"
| "reload_root E ((x, c) # xs) d =
     (if x \<noteq> ''__pycache__'' \<and> x \<noteq> ''.disabled''
      then reload_root E xs (index_add E (Root x) c d)
      else reload_root E xs d)"

fun reload_disabled :: "env \<Rightarrow> (string \<times> dir_content) list \<Rightarrow> index \<Rightarrow> index" where
  "reload_disabled E [] d = d"
| "reload_disabled E ((x, c) # xs) d = reload_disabled E xs (index_add E (Disabled x) c d)"

definition reload :: "env \<Rightarrow> fs \<Rightarrow> index" where
  "reload E f = reload_disabled E (disabled_dirs f) (reload_root E (root_dirs f) [])"

section \<open>Lookup by logical identity\<close>

definition is_url_like :: "string \<Rightarrow> bool" where
  "is_url_like packname =
     (\<exists>pattern \<in> set [''http://'', ''https://'', ''git@'', ''ssh://'',
                       ''.git'', ''github.com'', ''gitlab.com'', ''bitbucket.org''].
        contains (lower packname) pattern)"

text \<open>The search for the original casing among the keys of the index.\<close>

fun find_original_packname :: "env \<Rightarrow> string \<Rightarrow> string list \<Rightarrow> string option" where
  "find_original_packname E packname [] = None"
| "find_original_packname E packname (k # ks) =
     (if CHR ''/'' \<in> set k \<and> length (split_on CHR ''/'' k) = 2
         \<and> normalize_package_name E (split_on CHR ''/'' k ! 1) = packname
      then Some (split_on CHR ''/'' k ! 1)
      else find_original_packname E packname ks)"

text \<open>
  The part of \<open>_get_packages_by_name_or_url\<close> that settles \<open>repo_url\<close> for an id
  that is not URL-like: the first package with a repository URL, else what the registry
  says.
\<close>

definition lookup_repo_url :: "env \<Rightarrow> index \<Rightarrow> string \<Rightarrow> pkg list \<Rightarrow> string option" where
  "lookup_repo_url E d packname packages =
     (let repo_url0 = (case find (\<lambda>p. truthy (repo_url p)) packages of
                         Some p \<Rightarrow> repo_url p | None \<Rightarrow> None)
      in if truthy repo_url0 then repo_url0
         else
           (let original_packname = find_original_packname E packname (map fst d);
                cnr_packname = (if truthy original_packname then the original_packname
                                else packname)
            in case get_nodepack E cnr_packname of
                 None \<Rightarrow> repo_url0
               | Some pack_info \<Rightarrow> repository pack_info))"

definition get_packages_by_name_or_url :: "env \<Rightarrow> index \<Rightarrow> string \<Rightarrow> pkg list" where
  "get_packages_by_name_or_url E d packname =
     (let packages = index_get d packname in
      if is_url_like packname then packages
      else
        (let repo_url1 = lookup_repo_url E d packname packages
         in if truthy repo_url1
            then packages @ index_get d (compact_url E (the repo_url1))
            else packages))"

definition get_active_pack :: "env \<Rightarrow> index \<Rightarrow> string \<Rightarrow> pkg option" where
  "get_active_pack E d packname = find is_enabled_pkg (get_packages_by_name_or_url E d packname)"

section \<open>Resolver\<close>

text \<open>
  The loop of \<open>get_inactive_pack\<close>, with \<open>latest_pack\<close>, \<open>nightly_pack\<close> and
  \<open>unknown_pack\<close> as accumulators. An early \<open>return x\<close> ends the loop.
\<close>

fun get_inactive_pack_loop ::
  "env \<Rightarrow> string option \<Rightarrow> pkg list \<Rightarrow> pkg option \<Rightarrow> pkg option \<Rightarrow> pkg option \<Rightarrow> pkg option result"
where
  "get_inactive_pack_loop E version_spec [] latest_pack nightly_pack unknown_pack =
     (if version_spec = Some ''latest'' then Inr latest_pack
      else if latest_pack \<noteq> None then Inr latest_pack
      else if nightly_pack \<noteq> None then Inr nightly_pack
      else Inr unknown_pack)"
| "get_inactive_pack_loop E version_spec (x # xs) latest_pack nightly_pack unknown_pack =
     (if \<not> disabled x then get_inactive_pack_loop E version_spec xs latest_pack nightly_pack unknown_pack
      else if is_unknown x then
        (if version_spec = Some ''unknown'' then Inr (Some x)
         else get_inactive_pack_loop E version_spec xs latest_pack nightly_pack (Some x))
      else if is_nightly x then
        (if version_spec = Some ''nightly'' then Inr (Some x)
         else get_inactive_pack_loop E version_spec xs latest_pack (Some x) unknown_pack)
      else if Some (version x) = version_spec then Inr (Some x)
      else (case latest_pack of
              None \<Rightarrow> get_inactive_pack_loop E version_spec xs (Some x) nightly_pack unknown_pack
            | Some l \<Rightarrow>
                (case sv_less E (version l) (version x) of
                   Inl e \<Rightarrow> Inl e
                 | Inr b \<Rightarrow> get_inactive_pack_loop E version_spec xs
                             (if b then Some x else latest_pack) nightly_pack unknown_pack)))"

definition get_inactive_pack :: "env \<Rightarrow> index \<Rightarrow> string \<Rightarrow> string option \<Rightarrow> pkg option result" where
  "get_inactive_pack E d packname version_spec =
     get_inactive_pack_loop E version_spec (get_packages_by_name_or_url E d packname) None None None"

text \<open>
  The loop of \<open>resolve_unspecified_version\<close> in mode \<open>inactive\<close>: \<open>latest_cnr\<close> and
  \<open>nightly\<close> are the accumulators; an enabled package ends it with \<open>None\<close>.
\<close>

fun resolve_inactive_loop ::
  "env \<Rightarrow> pkg list \<Rightarrow> pkg option \<Rightarrow> pkg option \<Rightarrow> string option result"
where
  "resolve_inactive_loop E [] latest_cnr nightly =
     (case latest_cnr of
        Some l \<Rightarrow> Inr (Some (version l))
      | None \<Rightarrow> Inr (if nightly \<noteq> None then Some ''nightly'' else None))"
| "resolve_inactive_loop E (x # xs) latest_cnr nightly =
     (if is_enabled_pkg x then Inr None
      else if is_from_cnr x then
        (case latest_cnr of
           None \<Rightarrow> resolve_inactive_loop E xs (Some x) nightly
         | Some l \<Rightarrow>
             (case sv_less E (version l) (version x) of
                Inl e \<Rightarrow> Inl e
              | Inr b \<Rightarrow> resolve_inactive_loop E xs (if b then Some x else latest_cnr) nightly))
      else resolve_inactive_loop E xs latest_cnr (Some x))"

text \<open>The same loop in the remaining mode, where enabled packages count too.\<close>

fun resolve_global_loop ::
  "env \<Rightarrow> pkg list \<Rightarrow> pkg option \<Rightarrow> pkg option \<Rightarrow> string option result"
where
  "resolve_global_loop E [] latest_cnr nightly =
     (case latest_cnr of
        Some l \<Rightarrow> Inr (Some (version l))
      | None \<Rightarrow> Inr (if nightly \<noteq> None then Some ''nightly'' else None))"
| "resolve_global_loop E (x # xs) latest_cnr nightly =
     (if is_from_cnr x then
        (case latest_cnr of
           None \<Rightarrow> resolve_global_loop E xs (Some x) nightly
         | Some l \<Rightarrow>
             (case sv_less E (version l) (version x) of
                Inl e \<Rightarrow> Inl e
              | Inr b \<Rightarrow> resolve_global_loop E xs (if b then Some x else latest_cnr) nightly))
      else resolve_global_loop E xs latest_cnr (Some x))"

definition resolve_unspecified_version ::
  "env \<Rightarrow> index \<Rightarrow> string \<Rightarrow> string option \<Rightarrow> string option result"
where
  "resolve_unspecified_version E d packname guess_mode =
     (if is_url_like packname then Inr (Some ''nightly'')
      else if guess_mode = Some ''active'' then
        Inr (map_option version (get_active_pack E d packname))
      else if guess_mode = Some ''inactive'' then
        resolve_inactive_loop E (get_packages_by_name_or_url E d packname) None None
      else resolve_global_loop E (get_packages_by_name_or_url E d packname) None None)"

section \<open>File-system operations\<close>

fun fs_lookup :: "fs \<Rightarrow> location \<Rightarrow> dir_content option" where
  "fs_lookup f (Root n) = map_of (root_dirs f) n"
| "fs_lookup f (Disabled n) = map_of (disabled_dirs f) n"

definition del_entry :: "string \<Rightarrow> (string \<times> dir_content) list \<Rightarrow> (string \<times> dir_content) list" where
  "del_entry n xs = filter (\<lambda>e. fst e \<noteq> n) xs"

text \<open>\<open>shutil.rmtree\<close> of a directory; nothing changes when it does not exist.\<close>

fun fs_remove :: "fs \<Rightarrow> location \<Rightarrow> fs" where
  "fs_remove f (Root n) = f\<lparr>root_dirs := del_entry n (root_dirs f)\<rparr>"
| "fs_remove f (Disabled n) = f\<lparr>disabled_dirs := del_entry n (disabled_dirs f)\<rparr>"

text \<open>A new directory appears at the end of the listing.\<close>

fun fs_create :: "fs \<Rightarrow> location \<Rightarrow> dir_content \<Rightarrow> fs" where
  "fs_create f (Root n) c = f\<lparr>root_dirs := del_entry n (root_dirs f) @ [(n, c)]\<rparr>"
| "fs_create f (Disabled n) c = f\<lparr>disabled_dirs := del_entry n (disabled_dirs f) @ [(n, c)]\<rparr>"

definition add_child :: "string \<Rightarrow> string \<Rightarrow> (string \<times> dir_content) list \<Rightarrow> (string \<times> dir_content) list" where
  "add_child n child xs =
     map (\<lambda>e. if fst e = n then (fst e, (snd e)\<lparr>entries := entries (snd e) @ [child]\<rparr>) else e) xs"

fun fs_add_child :: "fs \<Rightarrow> location \<Rightarrow> string \<Rightarrow> fs" where
  "fs_add_child f (Root n) child = f\<lparr>root_dirs := add_child n child (root_dirs f)\<rparr>"
| "fs_add_child f (Disabled n) child = f\<lparr>disabled_dirs := add_child n child (disabled_dirs f)\<rparr>"

text \<open>The content of a directory is replaced, its name staying as it is.\<close>

fun fs_replace :: "fs \<Rightarrow> location \<Rightarrow> dir_content \<Rightarrow> fs" where
  "fs_replace f (Root n) c =
     f\<lparr>root_dirs := map (\<lambda>e. if fst e = n then (n, c) else e) (root_dirs f)\<rparr>"
| "fs_replace f (Disabled n) c =
     f\<lparr>disabled_dirs := map (\<lambda>e. if fst e = n then (n, c) else e) (disabled_dirs f)\<rparr>"

definition plain_name :: "string \<Rightarrow> bool" where
  "plain_name n = (n \<noteq> [] \<and> CHR ''/'' \<notin> set n \<and> n \<noteq> ''.'' \<and> n \<noteq> ''..'' \<and> n \<noteq> ''.disabled'')"

text \<open>
  \<open>shutil.move(src, dst)\<close> of a directory. A missing source raises. A destination that
  is an existing directory receives the source as a new entry inside it, unless an entry
  of that name is there already, which raises \<open>shutil.Error\<close>; the moved directory is
  then below the two scanned directories and no longer listed.
\<close>

definition move :: "fs \<Rightarrow> location \<Rightarrow> location \<Rightarrow> fs result" where
  "move f src dst =
     (case fs_lookup f src of
        None \<Rightarrow> Inl FileNotFoundError
      | Some c \<Rightarrow>
          if \<not> plain_name (loc_name dst) then Inl Unmodelled
          else if src = dst then Inr f
          else (case fs_lookup f dst of
                  None \<Rightarrow> Inr (fs_create (fs_remove f src) dst c)
                | Some t \<Rightarrow>
                    if loc_name src \<in> set (entries t) then Inl ShutilError
                    else Inr (fs_add_child (fs_remove f src) dst (loc_name src))))"

section \<open>Results of operations\<close>

datatype item = Moved location location | Removed string location | Url string

record managed_result =
  action :: string
  items :: "item list"
  result :: bool
  to_path :: "location option"
  msg :: "string option"
  target_path :: "location option"
  target_version :: "string option"
  postinstall :: "job option"
  ver :: "string option"

definition ManagedResult :: "string \<Rightarrow> managed_result" where
  "ManagedResult a =
     \<lparr>action = a, items = [], result = True, to_path = None, msg = None, target_path = None,
      target_version = None, postinstall = None, ver = None\<rparr>"

definition fail :: "managed_result \<Rightarrow> string \<Rightarrow> managed_result" where
  "fail r m = r\<lparr>result := False, msg := Some m\<rparr>"

definition with_msg :: "managed_result \<Rightarrow> string \<Rightarrow> managed_result" where
  "with_msg r m = r\<lparr>msg := Some m\<rparr>"

definition with_target_path :: "managed_result \<Rightarrow> location \<Rightarrow> managed_result" where
  "with_target_path r p = r\<lparr>target_path := Some p\<rparr>"

definition with_target_version :: "managed_result \<Rightarrow> string option \<Rightarrow> managed_result" where
  "with_target_version r v = r\<lparr>target_version := v\<rparr>"

definition with_postinstall :: "managed_result \<Rightarrow> job \<Rightarrow> managed_result" where
  "with_postinstall r j = r\<lparr>postinstall := Some j\<rparr>"

definition with_ver :: "managed_result \<Rightarrow> string \<Rightarrow> managed_result" where
  "with_ver r v = r\<lparr>ver := Some v\<rparr>"

text \<open>How an f-string prints an optional string.\<close>

fun fmt :: "string option \<Rightarrow> string" where
  "fmt None = ''None''"
| "fmt (Some s) = s"

text \<open>An operation either returns a result or lets an exception escape.\<close>

datatype outcome = Returned managed_result | Raised exn

section \<open>Status checks\<close>

definition is_enabled :: "env \<Rightarrow> index \<Rightarrow> string \<Rightarrow> string option \<Rightarrow> bool result" where
  "is_enabled E d packname version_spec =
     (case find is_enabled_pkg (get_packages_by_name_or_url E d packname) of
        None \<Rightarrow> Inr False
      | Some x \<Rightarrow>
          (case version_spec of
             None \<Rightarrow> Inr True
           | Some v \<Rightarrow>
               if v = ''nightly'' then Inr (is_nightly x)
               else if is_from_cnr x then sv_eq E (version x) v
               else Inr False))"

fun is_disabled_loop :: "env \<Rightarrow> string \<Rightarrow> pkg list \<Rightarrow> bool result" where
  "is_disabled_loop E v [] = Inr False"
| "is_disabled_loop E v (x # xs) =
     (if disabled x then
        (if v = ''nightly'' then (if is_nightly x then Inr True else is_disabled_loop E v xs)
         else if is_from_cnr x then
           (case sv_eq E (version x) v of
              Inl e \<Rightarrow> Inl e
            | Inr b \<Rightarrow> if b then Inr True else is_disabled_loop E v xs)
         else is_disabled_loop E v xs)
      else is_disabled_loop E v xs)"

definition is_disabled :: "env \<Rightarrow> index \<Rightarrow> string \<Rightarrow> string option \<Rightarrow> bool result" where
  "is_disabled E d packname version_spec =
     (case version_spec of
        None \<Rightarrow> Inr (find is_enabled_pkg (get_packages_by_name_or_url E d packname) = None)
      | Some v \<Rightarrow> is_disabled_loop E v (get_packages_by_name_or_url E d packname))"

section \<open>Enable, disable, uninstall\<close>

text \<open>
  \<open>unified_enable\<close>. The test \<open>version is None\<close> after resolving an absent version spec
  refers to the imported module \<open>packaging.version\<close> and is never true, so a failed
  resolution goes on with \<open>version_spec = None\<close>.
\<close>

text \<open>
  The destination of \<open>unified_enable\<close>: the directory in \<open>custom_nodes\<close> called
  \<open>project.name\<close> of the \<open>pyproject.toml\<close> found in the disabled directory, stripped,
  or else called as the requested name.
\<close>

definition enable_to_path :: "fs \<Rightarrow> string \<Rightarrow> pkg \<Rightarrow> location" where
  "enable_to_path f packname inactive_node =
     Root (case fs_lookup f (fullpath inactive_node) of
             None \<Rightarrow> packname
           | Some c \<Rightarrow> (case toml_name c of None \<Rightarrow> packname | Some n \<Rightarrow> strip n))"

definition unified_enable :: "env \<Rightarrow> index \<Rightarrow> fs \<Rightarrow> string \<Rightarrow> string option \<Rightarrow> outcome \<times> fs" where
  "unified_enable E d f packname version_spec0 =
     (case (if version_spec0 = None then resolve_unspecified_version E d packname (Some ''inactive'')
            else Inr version_spec0) of
        Inl e \<Rightarrow> (Raised e, f)
      | Inr version_spec \<Rightarrow>
     (case is_enabled E d packname version_spec of
        Inl e \<Rightarrow> (Raised e, f)
      | Inr True \<Rightarrow> (Returned (with_msg (ManagedResult ''skip'') ''Already enabled''), f)
      | Inr False \<Rightarrow>
     (case is_disabled E d packname version_spec of
        Inl e \<Rightarrow> (Raised e, f)
      | Inr False \<Rightarrow> (Returned (with_msg (ManagedResult ''skip'') ''Not installed''), f)
      | Inr True \<Rightarrow>
     (case get_inactive_pack E d packname version_spec of
        Inl e \<Rightarrow> (Raised e, f)
      | Inr None \<Rightarrow>
          (Returned (fail (ManagedResult ''enable'')
             (case version_spec of
                None \<Rightarrow> ''Specified inactive nodepack not exists: '' @ packname
              | Some v \<Rightarrow> ''Specified inactive nodepack not exists: '' @ packname @ ''@'' @ v)), f)
      | Inr (Some inactive_node) \<Rightarrow>
          (let from_path = fullpath inactive_node;
               to_path = enable_to_path f packname inactive_node
           in case move f from_path to_path of
                Inl e \<Rightarrow> (Raised e, f)
              | Inr f' \<Rightarrow> (Returned (with_target_path (ManagedResult ''enable'') to_path), f'))))))"

text \<open>\<open>_get_installed_version\<close>: the version in the metadata on disk, if it can be read.\<close>

definition get_installed_version :: "fs \<Rightarrow> location \<Rightarrow> string option" where
  "get_installed_version f path =
     (case fs_lookup f path of
        None \<Rightarrow> None
      | Some c \<Rightarrow> map_option cnr_version (read_cnr_info c))"

text \<open>The loop of \<open>unified_disable\<close>: the last package, and the last enabled one.\<close>

definition last_opt :: "pkg list \<Rightarrow> pkg option" where
  "last_opt xs = (if xs = [] then None else Some (last xs))"

definition disable_folder_name :: "env \<Rightarrow> string \<Rightarrow> pkg \<Rightarrow> string" where
  "disable_folder_name E packname matched_active =
     (if is_url_like packname then lower (loc_name (fullpath matched_active))
      else normalize_package_name E
             (if CHR ''/'' \<in> set packname then basename packname else packname))"

definition disable_version :: "fs \<Rightarrow> pkg \<Rightarrow> string" where
  "disable_version f matched_active =
     (if truthy (get_installed_version f (fullpath matched_active))
      then the (get_installed_version f (fullpath matched_active))
      else version matched_active)"

definition disable_to_path :: "env \<Rightarrow> fs \<Rightarrow> string \<Rightarrow> pkg \<Rightarrow> location" where
  "disable_to_path E f packname matched_active =
     Disabled (disable_folder_name E packname matched_active @ ''@''
               @ replace_char CHR ''.'' CHR ''_'' (disable_version f matched_active))"

definition unified_disable :: "env \<Rightarrow> index \<Rightarrow> fs \<Rightarrow> string \<Rightarrow> outcome \<times> fs" where
  "unified_disable E d f packname =
     (let packages = get_packages_by_name_or_url E d packname;
          matched = last_opt packages;
          matched_active = last_opt (filter is_enabled_pkg packages)
      in if matched = None then (Returned (with_msg (ManagedResult ''skip'') ''Not installed''), f)
         else case matched_active of
           None \<Rightarrow> (Returned (with_msg (ManagedResult ''skip'') ''Already disabled''), f)
         | Some a \<Rightarrow>
             (let to_path = disable_to_path E f packname a;
                  f1 = (if fs_lookup f to_path \<noteq> None then fs_remove f to_path else f)
              in case move f1 (fullpath a) to_path of
                   Inl e \<Rightarrow> (Raised e, f1)
                 | Inr f2 \<Rightarrow>
                     (Returned ((ManagedResult ''disable'')\<lparr>items := [Moved (fullpath a) to_path]\<rparr>), f2)))"

text \<open>
  \<open>unified_uninstall\<close>. \<open>try_rmtree\<close> does not raise: a failing removal is scheduled for
  the next start, which leaves the file system as it is.
\<close>

definition unified_uninstall :: "env \<Rightarrow> index \<Rightarrow> fs \<Rightarrow> string \<Rightarrow> outcome \<times> fs" where
  "unified_uninstall E d f packname =
     (let packages_to_uninstall = get_packages_by_name_or_url E d packname;
          f' = fold (\<lambda>x g. fs_remove g (fullpath x)) packages_to_uninstall f;
          its = map (\<lambda>x. Removed (version x) (fullpath x)) packages_to_uninstall
      in if its = [] then (Returned (with_msg (ManagedResult ''skip'') ''Not installed''), f')
         else (Returned ((ManagedResult ''uninstall'')\<lparr>items := its\<rparr>), f'))"

section \<open>Post-install step\<close>

text \<open>
  Running a deferred job. \<open>execute_install_script\<close> without a path raises a
  \<open>TypeError\<close>. \<open>reserve_cnr_switch\<close> appends a line to the script that runs at the
  next start, which is outside the directories modelled here, and returns \<open>True\<close>.
\<close>

fun run_job :: "env \<Rightarrow> job \<Rightarrow> bool result" where
  "run_job E (Job n None) = Inl TypeError"
| "run_job E (Job n (Some p)) = Inr (execute_install_script E n p)"
| "run_job E (Reserve t z a b) = Inr True"

text \<open>
  The closing lines shared by the installing operations:
  \<^verbatim>\<open>
  if return_postinstall:
      return result.with_postinstall(postinstall)
  else:
      if not postinstall():
          return result.fail(...)
  return result
  \<close>
\<close>

definition settle_postinstall :: "env \<Rightarrow> bool \<Rightarrow> managed_result \<Rightarrow> job \<Rightarrow> string \<Rightarrow> outcome" where
  "settle_postinstall E return_postinstall r j m =
     (if return_postinstall then Returned (with_postinstall r j)
      else (case run_job E j of
              Inl e \<Rightarrow> Raised e
            | Inr ok \<Rightarrow> if \<not> ok then Returned (fail r m) else Returned r))"

section \<open>Fresh installation\<close>

definition cnr_install ::
  "env \<Rightarrow> fs \<Rightarrow> string \<Rightarrow> string option \<Rightarrow> bool \<Rightarrow> outcome \<times> fs"
where
  "cnr_install E f packname version_spec return_postinstall =
     (let r0 = ManagedResult ''install-cnr'' in
      if contains (lower packname) ''comfyui-manager''
      then (Returned (fail r0 (''ignored: installing '' @ [CHR 0x27] @ packname @ [CHR 0x27])), f)
      else case install_node E packname version_spec of
        None \<Rightarrow> (Returned (fail r0 (''not available node: '' @ packname @ ''@'' @ fmt version_spec)), f)
      | Some node_info \<Rightarrow>
          if download_url node_info = []
          then (Returned (fail r0 (''not available node: '' @ packname @ ''@'' @ fmt version_spec)), f)
          else if \<not> plain_name packname then (Raised Unmodelled, f)
          else
            (let install_path = Root packname in
             if fs_lookup f install_path \<noteq> None
             then (Returned (fail r0 (''Install path already exists: '' @ path_str E install_path)), f)
             else case archive E (download_url node_info) of
                None \<Rightarrow>
                  (Returned (fail (r0\<lparr>to_path := Some install_path\<rparr>)
                     (''Empty archive file: '' @ packname @ ''@'' @ fmt version_spec)), f)
              | Some c \<Rightarrow>
                  (let r1 = r0\<lparr>to_path := Some install_path, target_version := version_spec,
                               target_path := Some install_path\<rparr>
                   in (settle_postinstall E return_postinstall r1 (Job packname (Some install_path))
                         (''Failed to execute install script: '' @ packname @ ''@'' @ fmt version_spec),
                       fs_create f install_path c))))"

text \<open>
  \<open>repo_install\<close> on a system that is not Windows. An exception of \<open>git clone\<close>
  ends in the failure \<open>Install(git-clone) error[2]\<close>, which prints the exception.
\<close>

definition repo_install ::
  "env \<Rightarrow> fs \<Rightarrow> string \<Rightarrow> location \<Rightarrow> bool \<Rightarrow> outcome \<times> fs"
where
  "repo_install E f url0 repo_path return_postinstall =
     (let r0 = (ManagedResult ''install-git'')\<lparr>items := [Url url0]\<rparr> in
      if contains (lower url0) ''comfyui-manager''
      then (Returned (fail r0 (''ignored: installing '' @ [CHR 0x27] @ url0 @ [CHR 0x27])), f)
      else if \<not> is_valid_url E url0 then (Returned (fail r0 (''Invalid git url: '' @ url0)), f)
      else
        (let url = (if endswith url0 ''/'' then butlast url0 else url0)
         in if \<not> plain_name (loc_name repo_path) then (Raised Unmodelled, f)
            else case clone E url (fs_lookup f repo_path) of
               Inl e \<Rightarrow>
                 (Returned (fail r0 (''Install(git-clone) error[2]: '' @ url @ '' / '' @ e)), f)
             | Inr c \<Rightarrow>
                 (let f' = fs_create f repo_path c;
                      r1 = r0\<lparr>target_path := Some repo_path, target_version := Some ''nightly''\<rparr>
                  in if return_postinstall
                     then (Returned (with_postinstall r1 (Job url (Some repo_path))), f')
                     else if \<not> execute_install_script E url repo_path
                     then (Returned (fail r1 (''Failed to execute install script: '' @ url)), f')
                     else (Returned r1, f'))))"

section \<open>Version switching\<close>

text \<open>
  \<open>cnr_switch_version_instant\<close>. The index is the one the caller holds: it is not
  rescanned between the steps.
\<close>

definition cnr_switch_version_instant ::
  "env \<Rightarrow> index \<Rightarrow> fs \<Rightarrow> string \<Rightarrow> string option \<Rightarrow> bool \<Rightarrow> outcome \<times> fs"
where
  "cnr_switch_version_instant E d f packname version_spec0 return_postinstall =
     (let r0 = ManagedResult ''switch-cnr'';
          active_node0 = get_active_pack E d packname
      in case get_inactive_pack E d packname None of
        Inl e \<Rightarrow> (Raised e, f)
      | Inr inactive_node_any \<Rightarrow>
     (let name0 = (case active_node0 of
                     Some a \<Rightarrow> pkg_id a
                   | None \<Rightarrow> (case inactive_node_any of Some i \<Rightarrow> pkg_id i | None \<Rightarrow> packname));
          original_packname = (if CHR ''/'' \<in> set name0 then last (split_on CHR ''/'' name0) else name0);
          unavailable = (Returned (fail r0 (''not available node: '' @ original_packname @ ''@''
                                           @ fmt version_spec0)), f)
      in case install_node E original_packname version_spec0 of
        None \<Rightarrow> unavailable
      | Some node_info \<Rightarrow>
          if download_url node_info = [] then unavailable
          else
     (let version_spec = nv_version node_info in
      case get_inactive_pack E d packname (Some version_spec) of
        Inl e \<Rightarrow> (Raised e, f)
      | Inr inactive_node \<Rightarrow>
          if (case inactive_node of
                None \<Rightarrow> False
              | Some i \<Rightarrow> is_from_cnr i \<and> version i = version_spec)
          then
            \<comment> \<open>Case A: the requested version is in \<open>.disabled\<close>\<close>
            (case (case get_active_pack E d packname of
                     None \<Rightarrow> (Returned r0, f)
                   | Some a \<Rightarrow> unified_disable E d f (pkg_id a)) of
               (Raised e, f1) \<Rightarrow> (Raised e, f1)
             | (Returned disable_result, f1) \<Rightarrow>
                 if \<not> result disable_result
                 then (Returned (fail r0 (''Failed to disable current version: ''
                                          @ fmt (msg disable_result))), f1)
                 else
                   (case unified_enable E d f1 packname (Some version_spec) of
                      (Raised e, f2) \<Rightarrow> (Raised e, f2)
                    | (Returned enable_result, f2) \<Rightarrow>
                        if \<not> result enable_result
                        then (Returned (fail r0 (''Failed to enable CNR version: '' @ packname
                                                 @ ''@'' @ version_spec)), f2)
                        else
                          (let r1 = r0\<lparr>target_version := Some version_spec,
                                       target_path := target_path enable_result\<rparr>
                           in (settle_postinstall E return_postinstall r1
                                 (Job (packname @ ''@'' @ version_spec) (target_path enable_result))
                                 (''Failed to execute install script: '' @ packname @ ''@''
                                  @ version_spec), f2))))
          else
            \<comment> \<open>Case B: download the requested version\<close>
            (case get_active_pack E d packname of
               None \<Rightarrow>
                 (Returned (fail r0 (''Failed to switch version: '' @ [CHR 0x27] @ packname
                                     @ [CHR 0x27] @ '' was not previously installed.'')), f)
             | Some active_node \<Rightarrow>
                 (let install_path = fullpath active_node;
                      is_active_nightly =
                        (case fs_lookup f install_path of
                           None \<Rightarrow> False | Some c \<Rightarrow> ''.git'' \<in> set (entries c))
                  in case (if is_active_nightly then unified_disable E d f (pkg_id active_node)
                           else (Returned r0, f)) of
                       (Raised e, f1) \<Rightarrow> (Raised e, f1)
                     | (Returned disable_result, f1) \<Rightarrow>
                         if \<not> result disable_result
                         then (Returned (fail r0 (''Failed to disable Nightly version: ''
                                                  @ fmt (msg disable_result))), f1)
                         else if \<not> plain_name (loc_name install_path) then (Raised Unmodelled, f1)
                         else
                           (case archive E (download_url node_info) of
                              None \<Rightarrow>
                                (case fs_lookup f1 install_path of
                                   None \<Rightarrow> (Raised Unmodelled, f1)
                                 | Some c \<Rightarrow>
                                     (Returned (fail r0 (''Empty archive file: '' @ packname @ ''@''
                                                         @ version_spec)),
                                      if entries c = [] then fs_remove f1 install_path else f1))
                            | Some new \<Rightarrow>
                                (let f2 = (case fs_lookup f1 install_path of
                                             None \<Rightarrow> fs_create f1 install_path new
                                           | Some old \<Rightarrow>
                                               fs_replace f1 install_path (extract_over E old new));
                                     r1 = r0\<lparr>target_version := Some version_spec,
                                             target_path := Some install_path\<rparr>
                                 in (settle_postinstall E return_postinstall r1
                                       (Job (packname @ ''@'' @ version_spec) (Some install_path))
                                       (''Failed to execute install script: '' @ packname @ ''@''
                                        @ version_spec), f2))))))))"

definition switch_version ::
  "env \<Rightarrow> index \<Rightarrow> fs \<Rightarrow> string \<Rightarrow> string option \<Rightarrow> bool \<Rightarrow> outcome \<times> fs"
where
  "switch_version E d f packname mode return_postinstall =
     (let r0 = ManagedResult ''switch-version'' in
      if mode = Some ''nightly'' then
        (case get_inactive_pack E d packname (Some ''nightly'') of
           Inl e \<Rightarrow> (Raised e, f)
         | Inr None \<Rightarrow>
             (Returned (fail r0 (''Nightly version not installed for '' @ packname
                                 @ ''. Please install it first.'')), f)
         | Inr (Some inactive_nightly) \<Rightarrow>
             (case (case get_active_pack E d packname of
                      None \<Rightarrow> (Returned r0, f)
                    | Some a \<Rightarrow> unified_disable E d f (pkg_id a)) of
                (Raised e, f1) \<Rightarrow> (Raised e, f1)
              | (Returned disable_result, f1) \<Rightarrow>
                  if \<not> result disable_result
                  then (Returned (fail r0 (''Failed to disable current version: ''
                                           @ fmt (msg disable_result))), f1)
                  else
                    (case unified_enable E d f1 packname (Some ''nightly'') of
                       (Raised e, f2) \<Rightarrow> (Raised e, f2)
                     | (Returned enable_result, f2) \<Rightarrow>
                         if \<not> result enable_result
                         then (Returned (fail r0 (''Failed to enable Nightly version: ''
                                                  @ fmt (msg enable_result))), f2)
                         else
                           (settle_postinstall E return_postinstall
                              (r0\<lparr>target_path := target_path enable_result\<rparr>)
                              (Job (packname @ ''@nightly'') (target_path enable_result))
                              (''Failed to execute install script: '' @ packname @ ''@nightly''),
                            f2))))
      else cnr_switch_version_instant E d f packname mode return_postinstall)"

section \<open>Update\<close>

text \<open>
  \<open>cnr_switch_version_lazy\<close>: nothing is moved now; the switch is reserved for the next
  start.
\<close>

definition cnr_switch_version_lazy ::
  "env \<Rightarrow> index \<Rightarrow> fs \<Rightarrow> string \<Rightarrow> string option \<Rightarrow> bool \<Rightarrow> outcome \<times> fs"
where
  "cnr_switch_version_lazy E d f packname version_spec0 return_postinstall =
     (let r0 = ManagedResult ''switch-cnr'';
          unavailable = (Returned (fail r0 (''not available node: '' @ packname @ ''@''
                                           @ fmt version_spec0)), f)
      in case install_node E packname version_spec0 of
        None \<Rightarrow> unavailable
      | Some node_info \<Rightarrow>
          if download_url node_info = [] then unavailable
          else
            (let version_spec = nv_version node_info in
             case get_active_pack E d packname of
               None \<Rightarrow>
                 (Returned (fail r0 (''Failed to switch version: '' @ [CHR 0x27] @ packname
                                     @ [CHR 0x27] @ '' was not previously installed.'')), f)
             | Some active_node \<Rightarrow>
                 if version active_node = version_spec
                 then (Returned (with_msg (ManagedResult ''skip'') ''Up to date''), f)
                 else (settle_postinstall E return_postinstall r0
                         (Reserve packname (download_url node_info) (fullpath active_node)
                            (path_join (custom_nodes_path E) packname))
                         (''Failed to execute install script: '' @ packname @ ''@'' @ version_spec),
                       f)))"

definition cnr_switch_version ::
  "env \<Rightarrow> index \<Rightarrow> fs \<Rightarrow> string \<Rightarrow> string option \<Rightarrow> bool \<Rightarrow> bool \<Rightarrow> outcome \<times> fs"
where
  "cnr_switch_version E d f packname version_spec instant_execution return_postinstall =
     (if instant_execution
      then cnr_switch_version_instant E d f packname version_spec return_postinstall
      else cnr_switch_version_lazy E d f packname version_spec return_postinstall)"

text \<open>
  \<open>repo_update\<close>. The \<open>git\<close> commands work inside the directory: whatever they come
  to, the directory keeps its name.
\<close>

definition repo_update :: "env \<Rightarrow> fs \<Rightarrow> location \<Rightarrow> bool \<Rightarrow> outcome \<times> fs" where
  "repo_update E f repo_path return_postinstall =
     (let r0 = ManagedResult ''update-git'';
          not_found = (Returned (fail r0 (''Path not found: '' @ path_str E repo_path)), f)
      in case fs_lookup f repo_path of
        None \<Rightarrow> not_found
      | Some c \<Rightarrow>
          if ''.git'' \<notin> set (entries c) then not_found
          else
            (let f' = fs_replace f repo_path (snd (git_update E c)) in
             case fst (git_update E c) of
               NoDefaultBranch \<Rightarrow>
                 (Returned (fail r0 (''Failed to switch to default branch: '' @ path_str E repo_path)), f')
             | NoRemote \<Rightarrow>
                 (Returned (fail r0 (''Failed to get remote when installing: ''
                                     @ path_str E repo_path)), f')
             | NotUpdatable branch_name \<Rightarrow>
                 (Returned (fail r0 (''Not updatable branch: '' @ branch_name)), f')
             | UpToDate \<Rightarrow> (Returned (with_msg (ManagedResult ''skip'') ''Up to date''), f')
             | Pulled url \<Rightarrow>
                 (settle_postinstall E return_postinstall r0 (Job url (Some repo_path))
                    (''Failed to execute install script: '' @ url), f')))"

definition unified_update ::
  "env \<Rightarrow> index \<Rightarrow> fs \<Rightarrow> string \<Rightarrow> bool \<Rightarrow> bool \<Rightarrow> outcome \<times> fs"
where
  "unified_update E d f packname instant_execution return_postinstall =
     (case get_active_pack E d packname of
        None \<Rightarrow>
          (Returned (fail (ManagedResult ''update'')
             (''Update failed: '' @ [CHR 0x27] @ packname @ [CHR 0x27] @ '' is not installed.'')), f)
      | Some pack \<Rightarrow>
          if is_nightly pack then
            (case repo_update E f (fullpath pack) return_postinstall of
               (Raised e, f') \<Rightarrow> (Raised e, f')
             | (Returned r, f') \<Rightarrow>
                 (Returned (with_ver (with_target_version r (Some ''nightly'')) ''nightly''), f'))
          else
            (case cnr_switch_version E d f packname None instant_execution return_postinstall of
               (Raised e, f') \<Rightarrow> (Raised e, f')
             | (Returned r, f') \<Rightarrow> (Returned (with_ver r ''cnr''), f')))"

section \<open>Install\<close>

text \<open>\<open>resolve_node_spec\<close>: name, version spec, and whether a version was written.\<close>

definition resolve_node_spec ::
  "env \<Rightarrow> index \<Rightarrow> string \<Rightarrow> string option \<Rightarrow> (string \<times> string option \<times> bool) option result"
where
  "resolve_node_spec E d packname guess_mode0 =
     (let spec = split_on CHR ''@'' packname in
      if length spec = 2 then
        (if spec ! 1 = ''latest'' then
           (case get_nodepack E (spec ! 0) of
              None \<Rightarrow> Inr None
            | Some info \<Rightarrow>
                (case latest_version info of
                   None \<Rightarrow> Inr None
                 | Some v \<Rightarrow> Inr (Some (spec ! 0, Some v, True))))
         else Inr (Some (spec ! 0, Some (spec ! 1), True)))
      else
        (let guess_mode = (if guess_mode0 = Some ''active'' \<or> guess_mode0 = Some ''inactive''
                           then guess_mode0 else None)
         in case resolve_unspecified_version E d (spec ! 0) guess_mode of
              Inl e \<Rightarrow> Inl e
            | Inr v \<Rightarrow> Inr (Some (spec ! 0, v, length spec > 1))))"

definition is_git_hash :: "string \<Rightarrow> bool" where
  "is_git_hash v = (length v = 40 \<and> (\<forall>c \<in> set (lower v). c \<in> set ''0123456789abcdef''))"

text \<open>\<open>checkout_git_commit\<close> changes the content of the directory at the path, if any.\<close>

definition fs_checkout :: "env \<Rightarrow> fs \<Rightarrow> location \<Rightarrow> string \<Rightarrow> fs" where
  "fs_checkout E f path h =
     (case path of
        Root n \<Rightarrow> f\<lparr>root_dirs := map (\<lambda>e. if fst e = n then (n, checkout E (snd e) h) else e) (root_dirs f)\<rparr>
      | Disabled n \<Rightarrow> f\<lparr>disabled_dirs := map (\<lambda>e. if fst e = n then (n, checkout E (snd e) h) else e) (disabled_dirs f)\<rparr>)"

text \<open>
  The loop of \<open>install_by_id\<close> that disables every enabled package of the list, each by
  its own id and on the index scanned before the loop. An exception ends it.
\<close>

fun disable_enabled :: "env \<Rightarrow> index \<Rightarrow> pkg list \<Rightarrow> fs \<Rightarrow> exn option \<times> fs" where
  "disable_enabled E d [] f = (None, f)"
| "disable_enabled E d (x # xs) f =
     (if disabled x then disable_enabled E d xs f
      else (case unified_disable E d f (pkg_id x) of
              (Raised e, f1) \<Rightarrow> (Some e, f1)
            | (Returned r, f1) \<Rightarrow> disable_enabled E d xs f1))"

text \<open>
  \<open>install_by_id\<close> from the comment \<open>ensure target version\<close> on, for a name that is
  not URL-like, in four blocks. The result carries the index as last rescanned. Three
  tests of the source are decided by the test before them and are not written out:
  without an enabled package \<open>is_disabled(packname)\<close> holds, and where
  \<open>get_active_pack\<close> found nothing \<open>is_enabled(packname_for_checks)\<close> fails.
\<close>

text \<open>The block for an absent version spec: skip what is enabled, else enable.\<close>

definition install_unversioned ::
  "env \<Rightarrow> index \<Rightarrow> fs \<Rightarrow> string \<Rightarrow> string option \<Rightarrow> outcome \<times> index \<times> fs"
where
  "install_unversioned E d f packname git_hash_for_checkout =
     (if find is_enabled_pkg (get_packages_by_name_or_url E d packname) \<noteq> None then
        (case git_hash_for_checkout of
           None \<Rightarrow> (Returned (ManagedResult ''skip''), d, f)
         | Some h \<Rightarrow>
             (case find (\<lambda>x. is_enabled_pkg x \<and> is_nightly x) (get_packages_by_name_or_url E d packname) of
                None \<Rightarrow> (Returned (ManagedResult ''skip''), d, f)
              | Some x \<Rightarrow> (Returned (ManagedResult ''skip''), d, fs_checkout E f (fullpath x) h)))
      else
        (case unified_enable E d f packname None of
           (Raised e, f1) \<Rightarrow> (Raised e, d, f1)
         | (Returned r, f1) \<Rightarrow>
             (Returned r, d,
              (case git_hash_for_checkout of
                 None \<Rightarrow> f1
               | Some h \<Rightarrow> (case target_path r of
                              None \<Rightarrow> f1
                            | Some tp \<Rightarrow> if result r then fs_checkout E f1 tp h else f1)))))"

text \<open>
  The block under \<open>IMPLICIT VERSION SWITCHING\<close>: \<open>None\<close> when the flow goes on to
  the installation proper.
\<close>

definition install_switch ::
  "env \<Rightarrow> index \<Rightarrow> fs \<Rightarrow> string \<Rightarrow> string option \<Rightarrow> bool \<Rightarrow> (outcome \<times> fs) option"
where
  "install_switch E d1 f packname_for_checks version_spec return_postinstall =
     (case get_active_pack E d1 packname_for_checks of
        Some a \<Rightarrow>
          (case get_inactive_pack E d1 packname_for_checks version_spec of
             Inl e \<Rightarrow> Some (Raised e, f)
           | Inr None \<Rightarrow> None
           | Inr (Some inactive_target) \<Rightarrow>
               Some (switch_version E d1 f packname_for_checks version_spec return_postinstall))
      | None \<Rightarrow>
          (case is_disabled E d1 packname_for_checks version_spec of
             Inl e \<Rightarrow> Some (Raised e, f)
           | Inr False \<Rightarrow> None
           | Inr True \<Rightarrow> Some (unified_enable E d1 f packname_for_checks version_spec)))"

text \<open>The block under \<open>case: nightly\<close>.\<close>

definition install_nightly ::
  "env \<Rightarrow> index \<Rightarrow> fs \<Rightarrow> string \<Rightarrow> string option \<Rightarrow> bool \<Rightarrow> outcome \<times> index \<times> fs"
where
  "install_nightly E d1 f packname version_spec return_postinstall =
     (case get_nodepack E packname of
        None \<Rightarrow>
          (Returned (fail (ManagedResult ''fail'')
             ([CHR 0x27] @ packname @ [CHR 0x27]
              @ '' is not a node pack registered in the registry.'')), d1, f)
      | Some pack_info \<Rightarrow>
          (case repository pack_info of
             None \<Rightarrow>
               (Returned (fail (ManagedResult ''fail'')
                  (''No nightly version available for installation for '' @ [CHR 0x27]
                   @ packname @ [CHR 0x27] @ ''.'')), d1, f)
           | Some repo \<Rightarrow>
               (let d2 = reload E f;
                    packname_normalized = normalize_package_name E packname
                in case (if find is_enabled_pkg (get_packages_by_name_or_url E d2 packname_normalized) \<noteq> None
                         then unified_disable E d2 f packname_normalized
                         else (Returned (ManagedResult ''skip''), f)) of
                     (Raised e, f1) \<Rightarrow> (Raised e, d2, f1)
                   | (Returned r, f1) \<Rightarrow>
                       (case repo_install E f1 repo (Root packname) return_postinstall of
                          (Raised e, f2) \<Rightarrow> (Raised e, d2, f2)
                        | (Returned res, f2) \<Rightarrow>
                            if \<not> result res then (Returned res, d2, f2)
                            else (Returned (with_target_version res version_spec), d2, f2)))))"

text \<open>The last block: disable what is enabled, then enable the target or download it.\<close>

definition install_release ::
  "env \<Rightarrow> fs \<Rightarrow> string \<Rightarrow> string option \<Rightarrow> bool \<Rightarrow> outcome \<times> index \<times> fs"
where
  "install_release E f packname version_spec return_postinstall =
     (let packname_normalized = normalize_package_name E packname;
          d3 = reload E f;
          enabled_packages = get_packages_by_name_or_url E d3 packname_normalized
      in case disable_enabled E d3 enabled_packages f of
           (Some e, f1) \<Rightarrow> (Raised e, d3, f1)
         | (None, f1) \<Rightarrow>
             (let d4 = (if enabled_packages \<noteq> [] then reload E f1 else d3) in
              case is_disabled E d4 packname_normalized version_spec of
                Inl e \<Rightarrow> (Raised e, d4, f1)
              | Inr True \<Rightarrow>
                  (case unified_enable E d4 f1 packname_normalized version_spec of
                     (out, f2) \<Rightarrow> (out, d4, f2))
              | Inr False \<Rightarrow>
                  (case cnr_install E f1 packname version_spec return_postinstall of
                     (out, f2) \<Rightarrow> (out, d4, f2))))"

definition install_by_id_main ::
  "env \<Rightarrow> index \<Rightarrow> fs \<Rightarrow> string \<Rightarrow> string option \<Rightarrow> string option \<Rightarrow> bool
     \<Rightarrow> outcome \<times> index \<times> fs"
where
  "install_by_id_main E d f packname version_spec git_hash_for_checkout return_postinstall =
     (if version_spec = None then install_unversioned E d f packname git_hash_for_checkout
      else
        (let d1 = reload E f;
             packname_for_checks = normalize_package_name E packname
         in case is_enabled E d1 packname_for_checks version_spec of
              Inl e \<Rightarrow> (Raised e, d1, f)
            | Inr True \<Rightarrow> (Returned (with_target_version (ManagedResult ''skip'') version_spec), d1, f)
            | Inr False \<Rightarrow>
                (case install_switch E d1 f packname_for_checks version_spec return_postinstall of
                   Some (out, f1) \<Rightarrow> (out, d1, f1)
                 | None \<Rightarrow>
                     if version_spec = Some ''nightly''
                     then install_nightly E d1 f packname version_spec return_postinstall
                     else install_release E f packname version_spec return_postinstall)))"

text \<open>
  \<open>install_by_id\<close>. A URL-like name that the registry knows is installed again under
  the registry id; the recursion is counted down by the first argument, \<open>None\<close> meaning
  that the count ran out. The source parses a \<open>name@hash\<close> first and tests for a
  URL-like name second; parsing only happens for a name that is not URL-like, and then
  the parsed name is not URL-like either, so the tests are written in the other order.
\<close>

fun install_by_id ::
  "nat \<Rightarrow> env \<Rightarrow> index \<Rightarrow> fs \<Rightarrow> string \<Rightarrow> string option \<Rightarrow> bool
     \<Rightarrow> (outcome \<times> index \<times> fs) option"
where
  "install_by_id 0 E d f packname0 version_spec return_postinstall = None"
| "install_by_id (Suc n) E d f packname0 version_spec return_postinstall =
     (if contains (lower packname0) ''comfyui-manager''
      then Some (Returned (fail (ManagedResult ''skip'')
                   (''ignored: installing '' @ [CHR 0x27] @ packname0 @ [CHR 0x27])), d, f)
      else if is_url_like packname0 then
        (case get_nodepack_by_url E (compact_url E packname0) of
           Some cnr_packname \<Rightarrow> install_by_id n E d f cnr_packname (Some ''nightly'') return_postinstall
         | None \<Rightarrow>
             if security_level E \<noteq> ''weak''
             then Some (Returned (fail (ManagedResult ''fail'')
                          (''Cannot install from URL '' @ [CHR 0x27] @ packname0 @ [CHR 0x27]
                           @ '': security_level must be '' @ [CHR 0x27] @ ''weak'' @ [CHR 0x27]
                           @ '' for direct URL installation. Current level: ''
                           @ security_level E)), d, f)
             else
               (let base = basename packname0;
                    repo_name = (if endswith base ''.git'' then take (length base - 4) base else base);
                    repo_path = Root repo_name
                in case repo_install E f packname0 repo_path return_postinstall of
                     (Raised e, f1) \<Rightarrow> Some (Raised e, d, f1)
                   | (Returned r, f1) \<Rightarrow>
                       Some (Returned (if result r
                                       then r\<lparr>action := ''install-git'', target_path := Some repo_path,
                                              target_version := Some ''nightly'', ver := Some ''nightly''\<rparr>
                                       else r), d, f1)))
      else
        (case (if CHR ''@'' \<in> set packname0 then resolve_node_spec E d packname0 None else Inr None) of
           Inl e \<Rightarrow> Some (Raised e, d, f)
         | Inr node_spec \<Rightarrow>
             (let hashed = (case node_spec of
                              Some (parsed_name, Some parsed_version, is_specified) \<Rightarrow>
                                if parsed_version \<noteq> [] \<and> is_git_hash parsed_version
                                then Some (parsed_name, parsed_version) else None
                            | _ \<Rightarrow> None);
                  packname = (case hashed of Some (n', h) \<Rightarrow> n' | None \<Rightarrow> packname0);
                  git_hash_for_checkout = map_option snd hashed
              in Some (install_by_id_main E d f packname version_spec git_hash_for_checkout
                         return_postinstall))))"

section \<open>Notions used to state the properties\<close>

text \<open>The parsed version of a package whose version string parses.\<close>

definition parsed :: "env \<Rightarrow> pkg \<Rightarrow> nat \<times> nat \<times> nat" where
  "parsed E x = the (StrictVersion E (version x))"

definition parseable :: "env \<Rightarrow> pkg list \<Rightarrow> bool" where
  "parseable E xs = (\<forall>x \<in> set xs. StrictVersion E (version x) \<noteq> None)"

definition disabled_releases :: "pkg list \<Rightarrow> pkg list" where
  "disabled_releases xs = filter (\<lambda>x. disabled x \<and> is_from_cnr x) xs"

definition disabled_nightlies :: "pkg list \<Rightarrow> pkg list" where
  "disabled_nightlies xs = filter (\<lambda>x. disabled x \<and> is_nightly x) xs"

definition disabled_unknowns :: "pkg list \<Rightarrow> pkg list" where
  "disabled_unknowns xs = filter (\<lambda>x. disabled x \<and> is_unknown x) xs"

text \<open>
  The running maximum the two resolver loops keep: the first package stays unless a
  later one is strictly higher.
\<close>

fun best_release :: "env \<Rightarrow> pkg option \<Rightarrow> pkg list \<Rightarrow> pkg option" where
  "best_release E l [] = l"
| "best_release E l (x # xs) =
     best_release E (case l of None \<Rightarrow> Some x
                     | Some y \<Rightarrow> if ver_less (parsed E y) (parsed E x) then Some x else Some y) xs"

definition last_or :: "pkg option \<Rightarrow> pkg list \<Rightarrow> pkg option" where
  "last_or d ys = (if ys = [] then d else Some (last ys))"

text \<open>
  A directory name carries a version tag when it is an entry of \<open>.disabled\<close> of the
  form \<open><name>@<tag>\<close> with exactly one \<open>@\<close> and a non-empty tag.
\<close>

definition has_version_tag :: "location \<Rightarrow> bool" where
  "has_version_tag path =
     (in_disabled_dir path \<and> CHR ''@'' \<in> set (loc_name path)
      \<and> length (split_on CHR ''@'' (loc_name path)) = 2
      \<and> split_on CHR ''@'' (loc_name path) ! 1 \<noteq> [])"

text \<open>
  The packages a scan of the file system yields, in scan order, and the keys a package
  is indexed under.
\<close>

definition scan :: "env \<Rightarrow> fs \<Rightarrow> pkg list" where
  "scan E f =
     map (\<lambda>e. from_fullpath E (Root (fst e)) (snd e))
         (filter (\<lambda>e. fst e \<noteq> ''__pycache__'' \<and> fst e \<noteq> ''.disabled'') (root_dirs f))
     @ map (\<lambda>e. from_fullpath E (Disabled (fst e)) (snd e)) (disabled_dirs f)"

definition indexed_under :: "env \<Rightarrow> string \<Rightarrow> pkg \<Rightarrow> bool" where
  "indexed_under E k p =
     (pkg_id p = k \<or> (is_from_cnr p \<and> normalize_package_name E (pkg_id p) = k))"

text \<open>The key of the index the lookup follows besides the id itself, if any.\<close>

definition followed_key :: "env \<Rightarrow> index \<Rightarrow> string \<Rightarrow> string option" where
  "followed_key E d packname =
     (if is_url_like packname then None
      else (let r = lookup_repo_url E d packname (index_get d packname)
            in if truthy r then Some (compact_url E (the r)) else None))"

text \<open>
  The enabled instances of a logical id: the paths of the enabled packages that the
  lookup finds on a fresh scan. The invariant for an id is that there is at most one.
\<close>

definition active_paths :: "env \<Rightarrow> fs \<Rightarrow> string \<Rightarrow> location list" where
  "active_paths E f k =
     remdups (map fullpath (filter is_enabled_pkg (get_packages_by_name_or_url E (reload E f) k)))"

definition single_active :: "env \<Rightarrow> fs \<Rightarrow> string \<Rightarrow> bool" where
  "single_active E f k = (length (active_paths E f k) \<le> 1)"

text \<open>
  The invariant as an operation on an id needs it beforehand: for the id, and for the
  own id of every enabled package found for it (operations disable a package under its
  own id).
\<close>

definition invariant_before :: "env \<Rightarrow> fs \<Rightarrow> string \<Rightarrow> bool" where
  "invariant_before E f k =
     (single_active E f k
      \<and> list_all (\<lambda>x. single_active E f (pkg_id x))
           (filter is_enabled_pkg (get_packages_by_name_or_url E (reload E f) k)))"

text \<open>
  The lookup of an id goes through the registry, which is outside the engine. It is
  stable from one file system to the next when the key it follows afterwards, if any,
  is the key it followed before or a key under which nothing was enabled before.
\<close>

definition lookup_stable :: "env \<Rightarrow> fs \<Rightarrow> fs \<Rightarrow> string \<Rightarrow> bool" where
  "lookup_stable E f f' k =
     (case followed_key E (reload E f') k of
        None \<Rightarrow> True
      | Some key \<Rightarrow>
          followed_key E (reload E f) k = Some key
          \<or> list_all disabled (index_get (reload E f) key))"

text \<open>
  Two relations between the listings of \<open>custom_nodes\<close> before and after an operation:
  every directory whose name is not in \<open>T\<close> was there before, with the same content;
  and no directory has the name \<open>n\<close>. An operation places its result in \<open>t\<close> for the
  id \<open>k\<close> when it carries over everything but \<open>t\<close> and leaves no enabled instance of
  \<open>k\<close> where it was, unless in \<open>t\<close> itself.
\<close>

definition carried :: "fs \<Rightarrow> fs \<Rightarrow> string set \<Rightarrow> bool" where
  "carried f f' T = (\<forall>e \<in> set (root_dirs f'). fst e \<notin> T \<longrightarrow> e \<in> set (root_dirs f))"

definition gone :: "fs \<Rightarrow> string \<Rightarrow> bool" where
  "gone f n = (n \<notin> fst ` set (root_dirs f))"

definition placed_in :: "env \<Rightarrow> fs \<Rightarrow> string \<Rightarrow> fs \<Rightarrow> string \<Rightarrow> bool" where
  "placed_in E f k f' t =
     (carried f f' {t} \<and> (\<forall>p \<in> set (active_paths E f k). p = Root t \<or> gone f' (loc_name p)))"

text \<open>
  What an operation on the id \<open>k\<close> with target directory \<open>t\<close> leaves enabled for an id
  \<open>j\<close>: instances that were enabled for \<open>j\<close> before and were no instances of \<open>k\<close>,
  and the target.
\<close>

definition enabled_after :: "env \<Rightarrow> fs \<Rightarrow> string \<Rightarrow> fs \<Rightarrow> string \<Rightarrow> string \<Rightarrow> bool" where
  "enabled_after E f k f' t j =
     (lookup_stable E f f' j \<longrightarrow>
        set (active_paths E f' j)
          \<subseteq> (set (active_paths E f j) - set (active_paths E f k)) \<union> {Root t})"

text \<open>The file system an install leaves; the empty one stands for a count that ran out.\<close>

definition after_install :: "(outcome \<times> index \<times> fs) option \<Rightarrow> fs" where
  "after_install r = (case r of Some (out, d, f) \<Rightarrow> f | None \<Rightarrow> \<lparr>root_dirs = [], disabled_dirs = []\<rparr>)"

text \<open>The outcome of an install; a count that ran out is reported as outside the model.\<close>

definition install_outcome :: "(outcome \<times> index \<times> fs) option \<Rightarrow> outcome" where
  "install_outcome r = (case r of Some (out, d, f) \<Rightarrow> out | None \<Rightarrow> Raised Unmodelled)"

text \<open>An operation succeeded when it returned a result whose flag \<open>result\<close> is true.\<close>

definition succeeded :: "outcome \<Rightarrow> bool" where
  "succeeded out = (case out of Returned r \<Rightarrow> result r | Raised e \<Rightarrow> False)"

text \<open>
  How the two ways of calling an installing operation relate, with the dependency step
  handed back (\<open>return_postinstall\<close>) and with the step run at once. Both leave the
  same file system. Where the first hands back a step, it reports success, the step is
  for the target path, and the second succeeds exactly when the step does (or raises
  what the step raises). Where the first hands back no step, both return the same.
\<close>

fun job_path :: "job \<Rightarrow> location option" where
  "job_path (Job n p) = p"
| "job_path (Reserve t z a b) = None"

definition gated :: "env \<Rightarrow> outcome \<times> fs \<Rightarrow> outcome \<times> fs \<Rightarrow> bool" where
  "gated E deferred direct =
     (snd direct = snd deferred
      \<and> (case fst deferred of
           Raised e \<Rightarrow> fst direct = Raised e
         | Returned r \<Rightarrow>
             (case postinstall r of
                None \<Rightarrow> fst direct = Returned r
              | Some j \<Rightarrow>
                  result r \<and> job_path j = target_path r
                  \<and> (case run_job E j of
                       Inl e \<Rightarrow> fst direct = Raised e
                     | Inr ok \<Rightarrow> succeeded (fst direct) = ok))))"



text \<open>The same for results that carry the index.\<close>

definition gated_main :: "env \<Rightarrow> outcome \<times> index \<times> fs \<Rightarrow> outcome \<times> index \<times> fs \<Rightarrow> bool" where
  "gated_main E x y = gated E (fst x, snd (snd x)) (fst y, snd (snd y))"

section \<open>A concrete environment for the examples\<close>

text \<open>
  Modelled from the spec: \<open>manager_util.StrictVersion\<close> is not among the sources.
  Following the specification (numeric comparison of \<open>major.minor.patch\<close>) and the
  replica in \<open>tests/test_unified_dep_resolver.py\<close>: the string is split at the dots, the
  first three fields are read as decimal numbers, missing fields are 0.
\<close>

definition digit_of :: "char \<Rightarrow> nat option" where
  "digit_of c = (if (48::nat) \<le> of_char c \<and> of_char c \<le> (57::nat) then Some (of_char c - 48) else None)"

fun parse_nat_acc :: "nat \<Rightarrow> string \<Rightarrow> nat option" where
  "parse_nat_acc acc [] = Some acc"
| "parse_nat_acc acc (c # s) =
     (case digit_of c of None \<Rightarrow> None | Some k \<Rightarrow> parse_nat_acc (10 * acc + k) s)"

definition parse_nat :: "string \<Rightarrow> nat option" where
  "parse_nat s = (if s = [] then None else parse_nat_acc 0 s)"

definition StrictVersion_model :: "string \<Rightarrow> (nat \<times> nat \<times> nat) option" where
  "StrictVersion_model s =
     (case map parse_nat (split_on CHR ''.'' s) of
        [Some a] \<Rightarrow> Some (a, 0, 0)
      | [Some a, Some b] \<Rightarrow> Some (a, b, 0)
      | Some a # Some b # Some c # rest \<Rightarrow> Some (a, b, c)
      | _ \<Rightarrow> None)"

text \<open>
  Modelled from the spec: \<open>cnr_utils.normalize_package_name\<close> is not among the sources.
  The comment at its call in \<open>unified_disable\<close> reads "normalize (lowercase, strip
  whitespace)".
\<close>

definition normalize_model :: "string \<Rightarrow> string" where
  "normalize_model s = lower (strip s)"

text \<open>
  Modelled from the spec: \<open>git_utils.compact_url\<close> is not among the sources. The
  specification describes it as the \<open>owner/repo\<close> shorthand of a remote URL; here a GitHub
  URL loses its host prefix and other strings are left as they are.
\<close>

definition compact_url_model :: "string \<Rightarrow> string" where
  "compact_url_model u =
     (if startswith u ''https://github.com/'' then drop 19 u else u)"

text \<open>
  A registry that knows the package \<open>P\<close> under this spelling only, with repository
  \<open>owner/P\<close> (the tests note that the registry wants the original case).
\<close>

definition registry_model :: "string \<Rightarrow> nodepack option" where
  "registry_model n =
     (if n = ''P'' then Some \<lparr>repository = Some ''https://github.com/owner/P'', latest_version = Some ''1.0.2''\<rparr>
      else None)"

definition release_content :: "string \<Rightarrow> string \<Rightarrow> string \<Rightarrow> dir_content" where
  "release_content i v n =
     \<lparr>git_url = None, read_cnr_info = Some \<lparr>cnr_id = i, cnr_version = v\<rparr>, toml_name = Some n,
      entries = [''pyproject.toml'', ''.tracking'', ''nodes.py'']\<rparr>"

definition nightly_content :: "string \<Rightarrow> dir_content" where
  "nightly_content u =
     \<lparr>git_url = Some u, read_cnr_info = None, toml_name = None, entries = [''.git'', ''nodes.py'']\<rparr>"

definition unknown_content :: dir_content where
  "unknown_content = \<lparr>git_url = None, read_cnr_info = None, toml_name = None, entries = []\<rparr>"

text \<open>
  The registry serves releases 1.0.1 and 1.0.2 of \<open>P\<close>, \<open>latest\<close> being 1.0.2; the
  archives declare the id \<open>p\<close>, the name \<open>P\<close> and their version. It also serves
  releases 0.1.0 and 0.2.0 of a package \<open>Q\<close>. The repository of \<open>P\<close> can be cloned. The
  dependency installer succeeds for \<open>P\<close> and fails for \<open>Q\<close>.
\<close>

definition install_node_model :: "string \<Rightarrow> string option \<Rightarrow> node_version option" where
  "install_node_model n v =
     (if n = ''P'' then
        (if v = None \<or> v = Some ''latest'' \<or> v = Some ''1.0.2''
         then Some \<lparr>download_url = ''https://cdn.example/p-1.0.2.zip'', nv_version = ''1.0.2''\<rparr>
         else if v = Some ''1.0.1''
         then Some \<lparr>download_url = ''https://cdn.example/p-1.0.1.zip'', nv_version = ''1.0.1''\<rparr>
         else None)
      else if n = ''Q'' then
        (if v = None \<or> v = Some ''latest'' \<or> v = Some ''0.2.0''
         then Some \<lparr>download_url = ''https://cdn.example/q-0.2.0.zip'', nv_version = ''0.2.0''\<rparr>
         else if v = Some ''0.1.0''
         then Some \<lparr>download_url = ''https://cdn.example/q-0.1.0.zip'', nv_version = ''0.1.0''\<rparr>
         else None)
      else None)"

definition archive_model :: "string \<Rightarrow> dir_content option" where
  "archive_model u =
     (if u = ''https://cdn.example/p-1.0.2.zip'' then Some (release_content ''p'' ''1.0.2'' ''P'')
      else if u = ''https://cdn.example/p-1.0.1.zip'' then Some (release_content ''p'' ''1.0.1'' ''P'')
      else if u = ''https://cdn.example/q-0.1.0.zip'' then Some (release_content ''q'' ''0.1.0'' ''Q'')
      else if u = ''https://cdn.example/q-0.2.0.zip'' then Some (release_content ''Q'' ''0.2.0'' ''Q'')
      else None)"

definition extract_over_model :: "dir_content \<Rightarrow> dir_content \<Rightarrow> dir_content" where
  "extract_over_model old new =
     \<lparr>git_url = git_url old, read_cnr_info = read_cnr_info new, toml_name = toml_name new,
      entries = remdups (entries old @ entries new)\<rparr>"

text \<open>
  Cloning: only the repository of \<open>P\<close> exists, and \<open>git\<close> refuses a destination that
  is there and not empty.
\<close>

definition clone_model :: "string \<Rightarrow> dir_content option \<Rightarrow> string + dir_content" where
  "clone_model u dest =
     (if (case dest of None \<Rightarrow> False | Some t \<Rightarrow> entries t \<noteq> [])
      then Inl ''destination path already exists and is not an empty directory''
      else if u = ''https://github.com/owner/P''
      then Inr (nightly_content ''https://github.com/owner/P'')
      else Inl ''repository not found'')"

definition example_env :: env where
  "example_env =
     \<lparr>normalize_package_name = normalize_model, compact_url = compact_url_model,
      StrictVersion = StrictVersion_model, get_nodepack = registry_model,
      get_nodepack_by_url = (\<lambda>u. if u = ''owner/P'' then Some ''P'' else None),
      install_node = install_node_model, archive = archive_model,
      extract_over = extract_over_model, clone = clone_model,
      checkout = (\<lambda>c h. c),
      git_update = (\<lambda>c. (UpToDate, c)),
      execute_install_script = (\<lambda>n p. p \<noteq> Root ''Q''),
      is_valid_url = (\<lambda>u. startswith u ''https://''),
      security_level = ''normal'',
      custom_nodes_path = ''/ComfyUI/custom_nodes''\<rparr>"

text \<open>Disabled Releases 1.0.0 and 1.0.2 and a disabled Nightly build of \<open>p\<close>.\<close>

definition fs_three_disabled :: fs where
  "fs_three_disabled =
     \<lparr>root_dirs = [],
      disabled_dirs = [(''p@1_0_0'', release_content ''p'' ''1.0.0'' ''P''),
                       (''p@1_0_2'', release_content ''p'' ''1.0.2'' ''P''),
                       (''p@nightly'', nightly_content ''https://github.com/owner/P'')]\<rparr>"

text \<open>A single disabled directory without any marker.\<close>

definition fs_unknown_only :: fs where
  "fs_unknown_only = \<lparr>root_dirs = [], disabled_dirs = [(''p'', unknown_content)]\<rparr>"

text \<open>Release 1.0.1 enabled, Release 1.0.2 disabled.\<close>

definition fs_active_and_disabled :: fs where
  "fs_active_and_disabled =
     \<lparr>root_dirs = [(''P'', release_content ''p'' ''1.0.1'' ''P'')],
      disabled_dirs = [(''p@1_0_2'', release_content ''p'' ''1.0.2'' ''P'')]\<rparr>"

definition fs_empty :: fs where
  "fs_empty = \<lparr>root_dirs = [], disabled_dirs = []\<rparr>"

text \<open>One enabled directory without any marker.\<close>

definition fs_unknown_active :: fs where
  "fs_unknown_active = \<lparr>root_dirs = [(''P'', unknown_content)], disabled_dirs = []\<rparr>"

text \<open>One enabled working tree.\<close>

definition fs_nightly_active :: fs where
  "fs_nightly_active =
     \<lparr>root_dirs = [(''P'', nightly_content ''https://github.com/owner/P'')], disabled_dirs = []\<rparr>"

text \<open>Release 1.0.1 enabled while a directory already sits in its inactive slot.\<close>

definition fs_slot_taken :: fs where
  "fs_slot_taken =
     \<lparr>root_dirs = [(''P'', release_content ''p'' ''1.0.1'' ''P'')],
      disabled_dirs = [(''p@1_0_1'', nightly_content ''https://github.com/other/q'')]\<rparr>"

text \<open>The package the scan yields for an enabled Release 1.0.1 in directory \<open>P\<close>.\<close>

definition pkg_P_101 :: pkg where
  "pkg_P_101 = \<lparr>pkg_id = ''p'', fullpath = Root ''P'', disabled = False, version = ''1.0.1'', repo_url = None\<rparr>"

text \<open>An index entry for directory \<open>P\<close> that still caches an older version.\<close>

definition pkg_P_stale :: pkg where
  "pkg_P_stale = \<lparr>pkg_id = ''p'', fullpath = Root ''P'', disabled = False, version = ''0.9.0'', repo_url = None\<rparr>"

text \<open>
  Release 1.0.2 enabled, Release 1.0.1 and a Nightly build disabled, and an unrelated
  package next to them.
\<close>

definition fs_mixed :: fs where
  "fs_mixed =
     \<lparr>root_dirs = [(''P'', release_content ''p'' ''1.0.2'' ''P''),
                   (''Q'', release_content ''q'' ''0.1.0'' ''Q'')],
      disabled_dirs = [(''p@1_0_1'', release_content ''p'' ''1.0.1'' ''P''),
                       (''p@nightly'', nightly_content ''https://github.com/owner/P'')]\<rparr>"

text \<open>
  Release 1.0.2 enabled in a directory called \<open>p\<close>, where its metadata say
  \<open>P\<close>, and Release 1.0.1 disabled.
\<close>

definition fs_lowercase_active :: fs where
  "fs_lowercase_active =
     \<lparr>root_dirs = [(''p'', release_content ''p'' ''1.0.2'' ''P'')],
      disabled_dirs = [(''p@1_0_1'', release_content ''p'' ''1.0.1'' ''P'')]\<rparr>"

text \<open>Release 1.0.2 disabled in the older layout, as \<open>custom_nodes/P.disabled\<close>.\<close>

definition fs_legacy_disabled :: fs where
  "fs_legacy_disabled =
     \<lparr>root_dirs = [(''P.disabled'', release_content ''p'' ''1.0.2'' ''P'')], disabled_dirs = []\<rparr>"

text \<open>Release 1.0.2 disabled in its slot, nothing enabled.\<close>

definition fs_one_disabled :: fs where
  "fs_one_disabled =
     \<lparr>root_dirs = [], disabled_dirs = [(''p@1_0_2'', release_content ''p'' ''1.0.2'' ''P'')]\<rparr>"

text \<open>
  Release 1.0.2 disabled in its slot, while a directory without any marker is called
  \<open>P\<close>.
\<close>

definition fs_foreign_dir :: fs where
  "fs_foreign_dir =
     \<lparr>root_dirs = [(''P'', \<lparr>git_url = None, read_cnr_info = None, toml_name = None,
                          entries = [''nodes.py'']\<rparr>)],
      disabled_dirs = [(''p@1_0_2'', release_content ''p'' ''1.0.2'' ''P'')]\<rparr>"

text \<open>Release 1.0.2 disabled in a slot spelled with the original case.\<close>

definition fs_uppercase_slot :: fs where
  "fs_uppercase_slot =
     \<lparr>root_dirs = [], disabled_dirs = [(''P@1_0_2'', release_content ''p'' ''1.0.2'' ''P'')]\<rparr>"

text \<open>The packages the scan yields for Release 1.0.2 in its slot and in directory \<open>P\<close>.\<close>

definition pkg_p_102_disabled :: pkg where
  "pkg_p_102_disabled =
     \<lparr>pkg_id = ''p'', fullpath = Disabled ''p@1_0_2'', disabled = True, version = ''1.0.2'', repo_url = None\<rparr>"

definition pkg_P_102 :: pkg where
  "pkg_P_102 = \<lparr>pkg_id = ''p'', fullpath = Root ''P'', disabled = False, version = ''1.0.2'', repo_url = None\<rparr>"




section \<open>Identity classification\<close>

lemma not_tag_no_dirname_version:
  "\<not> has_version_tag path \<Longrightarrow>
   \<not> truthy (if (endswith (loc_name path) ''.disabled'' \<or> in_disabled_dir path) \<and> in_disabled_dir path
                  \<and> CHR ''@'' \<in> set (loc_name path) \<and> length (split_on CHR ''@'' (loc_name path)) = 2
               then Some (replace_char CHR ''_'' CHR ''.'' (split_on CHR ''@'' (loc_name path) ! 1)) else None)"
  by (auto simp: has_version_tag_def replace_char_def)

text \<open>
  Claim C5, as amended. A directory that is not a version-tagged entry of \<open>.disabled\<close>
  is classified in this order: a working tree with a remote URL is Nightly, its id the
  compact form of the remote URL; otherwise a directory with release metadata gets the
  declared id and version; otherwise it is Unknown. A version-tagged entry of
  \<open>.disabled\<close> gets its version from the tag, with every underscore turned into a dot,
  whatever its content. In each case a package for the given path is returned.
\<close>

theorem classification_order:
  "(\<not> has_version_tag path \<longrightarrow>
      (truthy (git_url c) \<longrightarrow>
         version (from_fullpath E path c) = ''nightly''
         \<and> pkg_id (from_fullpath E path c) = compact_url E (the (git_url c)))
    \<and> (\<not> truthy (git_url c) \<longrightarrow>
         (\<forall>info. read_cnr_info c = Some info \<longrightarrow>
            version (from_fullpath E path c) = cnr_version info
            \<and> pkg_id (from_fullpath E path c) = cnr_id info)
       \<and> (read_cnr_info c = None \<longrightarrow> version (from_fullpath E path c) = ''unknown'')))
   \<and> (has_version_tag path \<longrightarrow>
        version (from_fullpath E path c)
          = replace_char CHR ''_'' CHR ''.'' (split_on CHR ''@'' (loc_name path) ! 1))
   \<and> fullpath (from_fullpath E path c) = path"
proof -
  have A: "\<not> has_version_tag path \<Longrightarrow> truthy (git_url c) \<Longrightarrow>
         version (from_fullpath E path c) = ''nightly''
         \<and> pkg_id (from_fullpath E path c) = compact_url E (the (git_url c))"
    using not_tag_no_dirname_version[of path]
    by (simp add: from_fullpath_def resolve_from_path_def Let_def)
  have B: "\<not> has_version_tag path \<Longrightarrow> \<not> truthy (git_url c) \<Longrightarrow> read_cnr_info c = Some info \<Longrightarrow>
            version (from_fullpath E path c) = cnr_version info
            \<and> pkg_id (from_fullpath E path c) = cnr_id info" for info
    using not_tag_no_dirname_version[of path]
    by (simp add: from_fullpath_def resolve_from_path_def Let_def)
  have C: "\<not> has_version_tag path \<Longrightarrow> \<not> truthy (git_url c) \<Longrightarrow> read_cnr_info c = None \<Longrightarrow>
            version (from_fullpath E path c) = ''unknown''"
    using not_tag_no_dirname_version[of path]
    by (simp add: from_fullpath_def resolve_from_path_def Let_def)
  have D: "has_version_tag path \<Longrightarrow> version (from_fullpath E path c)
          = replace_char CHR ''_'' CHR ''.'' (split_on CHR ''@'' (loc_name path) ! 1)"
    by (auto simp: from_fullpath_def has_version_tag_def Let_def replace_char_def split: option.splits)
  have F: "fullpath (from_fullpath E path c) = path"
    by (auto simp: from_fullpath_def Let_def split: option.splits)
  show ?thesis using A B C D F by blast
qed

theorem classification_order_witness:
  "\<not> has_version_tag (Root ''P'')
   \<and> truthy (git_url (nightly_content ''https://github.com/owner/P''))
   \<and> version (from_fullpath example_env (Root ''P'') (nightly_content ''https://github.com/owner/P'')) = ''nightly''
   \<and> pkg_id (from_fullpath example_env (Root ''P'') (nightly_content ''https://github.com/owner/P'')) = ''owner/P''
   \<and> \<not> truthy (git_url (release_content ''p'' ''1.0.2'' ''P''))
   \<and> version (from_fullpath example_env (Root ''P'') (release_content ''p'' ''1.0.2'' ''P'')) = ''1.0.2''
   \<and> pkg_id (from_fullpath example_env (Root ''P'') (release_content ''p'' ''1.0.2'' ''P'')) = ''p''
   \<and> version (from_fullpath example_env (Root ''P'') unknown_content) = ''unknown''
   \<and> has_version_tag (Disabled ''p@1_0_2'')
   \<and> version (from_fullpath example_env (Disabled ''p@1_0_2'') unknown_content) = ''1.0.2''"
proof -
  have t: "\<not> has_version_tag (Root ''P'')" by code_simp
  have g: "truthy (git_url (nightly_content ''https://github.com/owner/P''))" by code_simp
  have cu: "compact_url example_env (the (git_url (nightly_content ''https://github.com/owner/P''))) = ''owner/P''"
    by code_simp
  have r: "\<not> truthy (git_url (release_content ''p'' ''1.0.2'' ''P''))"
          "read_cnr_info (release_content ''p'' ''1.0.2'' ''P'') = Some \<lparr>cnr_id = ''p'', cnr_version = ''1.0.2''\<rparr>"
    by (simp_all add: release_content_def)
  have u: "\<not> truthy (git_url unknown_content)" "read_cnr_info unknown_content = None"
    by (simp_all add: unknown_content_def)
  have d: "has_version_tag (Disabled ''p@1_0_2'')" by code_simp
  have tag: "replace_char CHR ''_'' CHR ''.'' (split_on CHR ''@'' (loc_name (Disabled ''p@1_0_2'')) ! 1) = ''1.0.2''"
    by code_simp
  show ?thesis
    using classification_order[of "Root ''P''" "nightly_content ''https://github.com/owner/P''" example_env]
          classification_order[of "Root ''P''" "release_content ''p'' ''1.0.2'' ''P''" example_env]
          classification_order[of "Root ''P''" unknown_content example_env]
          classification_order[of "Disabled ''p@1_0_2''" unknown_content example_env]
          t g cu r u d tag
    by simp
qed

text \<open>
  The claim, stated for every directory path, fails on the version-tagged entries of
  \<open>.disabled\<close>: a working tree stored as
  \<open>.disabled/foo@1_0_2\<close> is classified with version \<open>1.0.2\<close>, not as Nightly, and a
  directory of that name without any marker is not Unknown.
\<close>

theorem classification_order_counterexample:
  "truthy (git_url (nightly_content ''https://github.com/o/foo''))
   \<and> version (from_fullpath example_env (Disabled ''foo@1_0_2'') (nightly_content ''https://github.com/o/foo'')) = ''1.0.2''
   \<and> git_url unknown_content = None \<and> read_cnr_info unknown_content = None
   \<and> version (from_fullpath example_env (Disabled ''foo@1_0_2'') unknown_content) = ''1.0.2''"
  by code_simp

section \<open>Resolver priority\<close>

lemma ver_less_trans_ge: "\<not> ver_less a b \<Longrightarrow> \<not> ver_less b c \<Longrightarrow> \<not> ver_less a c"
  by (cases a; cases b; cases c) auto

lemma ver_less_irrefl: "\<not> ver_less a a"
  by (cases a) auto

lemma ver_less_imp_ge: "ver_less a b \<Longrightarrow> \<not> ver_less b a"
  by (cases a; cases b) auto

lemma sv_less_parsed:
  "StrictVersion E (version l) \<noteq> None \<Longrightarrow> StrictVersion E (version x) \<noteq> None \<Longrightarrow>
   sv_less E (version l) (version x) = Inr (ver_less (parsed E l) (parsed E x))"
  by (auto simp: sv_less_def parsed_def)

lemma kinds_excl:
  "is_unknown x \<Longrightarrow> \<not> is_nightly x" "is_unknown x \<Longrightarrow> \<not> is_from_cnr x"
  "is_nightly x \<Longrightarrow> \<not> is_from_cnr x"
  "\<not> is_unknown x \<Longrightarrow> \<not> is_nightly x \<Longrightarrow> is_from_cnr x"
  by (auto simp: is_unknown_def is_nightly_def is_from_cnr_def)

lemma last_or_Cons: "last_or d (x # ys) = last_or (Some x) ys"
  by (simp add: last_or_def)

lemma gip_loop:
  assumes "parseable E (disabled_releases xs)"
      and "\<forall>l. latest = Some l \<longrightarrow> StrictVersion E (version l) \<noteq> None"
  shows "get_inactive_pack_loop E None xs latest nightly unknown =
         Inr (let l = best_release E latest (disabled_releases xs);
                  n = last_or nightly (disabled_nightlies xs);
                  u = last_or unknown (disabled_unknowns xs)
              in if l \<noteq> None then l else if n \<noteq> None then n else u)"
  using assms
proof (induction xs arbitrary: latest nightly unknown)
  case Nil
  then show ?case
    by (simp add: disabled_releases_def disabled_nightlies_def disabled_unknowns_def last_or_def)
next
  case (Cons x xs)
  have P: "parseable E (disabled_releases xs)"
    using Cons.prems(1) by (auto simp: parseable_def disabled_releases_def)
  show ?case
  proof (cases "disabled x")
    case False
    then show ?thesis using Cons.IH[OF P Cons.prems(2)]
      by (simp add: disabled_releases_def disabled_nightlies_def disabled_unknowns_def)
  next
    case dis: True
    consider (u) "is_unknown x" | (n) "\<not> is_unknown x" "is_nightly x" | (r) "\<not> is_unknown x" "\<not> is_nightly x"
      by blast
    then show ?thesis
    proof cases
      case u
      then show ?thesis using Cons.IH[OF P Cons.prems(2), of nightly "Some x"] dis kinds_excl(1,2)[OF u]
        by (simp add: disabled_releases_def disabled_nightlies_def disabled_unknowns_def last_or_Cons)
    next
      case n
      then show ?thesis using Cons.IH[OF P Cons.prems(2), of "Some x" unknown] dis kinds_excl(3)[OF n(2)]
        by (simp add: disabled_releases_def disabled_nightlies_def disabled_unknowns_def last_or_Cons)
    next
      case r
      have cnr: "is_from_cnr x" using r kinds_excl(4) by blast
      have px: "StrictVersion E (version x) \<noteq> None"
        using Cons.prems(1) dis cnr by (auto simp: parseable_def disabled_releases_def)
      show ?thesis
      proof (cases latest)
        case None
        have "\<forall>l. Some x = Some l \<longrightarrow> StrictVersion E (version l) \<noteq> None" using px by simp
        from Cons.IH[OF P this, of nightly unknown] show ?thesis using dis r cnr None
          by (simp add: disabled_releases_def disabled_nightlies_def disabled_unknowns_def)
      next
        case (Some l)
        have pl: "StrictVersion E (version l) \<noteq> None" using Cons.prems(2) Some by simp
        let ?l' = "if ver_less (parsed E l) (parsed E x) then Some x else Some l"
        have "\<forall>k. ?l' = Some k \<longrightarrow> StrictVersion E (version k) \<noteq> None" using px pl by simp
        from Cons.IH[OF P this, of nightly unknown] show ?thesis using dis r cnr Some sv_less_parsed[OF pl px]
          by (simp add: disabled_releases_def disabled_nightlies_def disabled_unknowns_def)
      qed
    qed
  qed
qed

lemma best_release_None: "best_release E l ys = None \<longleftrightarrow> l = None \<and> ys = []"
  by (induction ys arbitrary: l) (auto split: option.splits)

lemma best_release_max:
  "best_release E l ys = Some m \<Longrightarrow>
   m \<in> set_option l \<union> set ys \<and> (\<forall>y \<in> set_option l \<union> set ys. \<not> ver_less (parsed E m) (parsed E y))"
proof (induction ys arbitrary: l)
  case Nil
  then show ?case by (auto simp: ver_less_irrefl)
next
  case (Cons x xs)
  show ?case
  proof (cases l)
    case None
    with Cons.prems have "best_release E (Some x) xs = Some m" by simp
    from Cons.IH[OF this] show ?thesis using None by auto
  next
    case (Some k)
    show ?thesis
    proof (cases "ver_less (parsed E k) (parsed E x)")
      case True
      with Cons.prems Some have "best_release E (Some x) xs = Some m" by simp
      from Cons.IH[OF this] have m: "m \<in> insert x (set xs)" "\<forall>y\<in>insert x (set xs). \<not> ver_less (parsed E m) (parsed E y)"
        by auto
      have "\<not> ver_less (parsed E m) (parsed E k)"
        using m(2) ver_less_imp_ge[OF True] ver_less_trans_ge by blast
      then show ?thesis using m Some by auto
    next
      case False
      with Cons.prems Some have "best_release E (Some k) xs = Some m" by simp
      from Cons.IH[OF this] have m: "m \<in> insert k (set xs)" "\<forall>y\<in>insert k (set xs). \<not> ver_less (parsed E m) (parsed E y)"
        by auto
      have "\<not> ver_less (parsed E m) (parsed E x)"
        using m(2) False ver_less_trans_ge by blast
      then show ?thesis using m Some by auto
    qed
  qed
qed

lemma resolve_inactive_loop_eq:
  assumes "\<forall>x \<in> set xs. disabled x"
      and "parseable E (filter is_from_cnr xs)"
      and "\<forall>l. latest = Some l \<longrightarrow> StrictVersion E (version l) \<noteq> None"
  shows "resolve_inactive_loop E xs latest nightly =
         Inr (case best_release E latest (filter is_from_cnr xs) of
                Some m \<Rightarrow> Some (version m)
              | None \<Rightarrow> if last_or nightly (filter (\<lambda>x. \<not> is_from_cnr x) xs) \<noteq> None
                        then Some ''nightly'' else None)"
  using assms
proof (induction xs arbitrary: latest nightly)
  case Nil
  then show ?case by (simp add: last_or_def split: option.splits)
next
  case (Cons x xs)
  have D: "\<forall>x \<in> set xs. disabled x" using Cons.prems(1) by simp
  have P: "parseable E (filter is_from_cnr xs)" using Cons.prems(2) by (auto simp: parseable_def)
  have en: "\<not> is_enabled_pkg x" using Cons.prems(1) by (simp add: is_enabled_pkg_def)
  show ?case
  proof (cases "is_from_cnr x")
    case False
    then show ?thesis using Cons.IH[OF D P Cons.prems(3), of "Some x"] en
      by (auto simp: last_or_Cons)
  next
    case cnr: True
    have px: "StrictVersion E (version x) \<noteq> None"
      using Cons.prems(2) cnr by (auto simp: parseable_def)
    show ?thesis
    proof (cases latest)
      case None
      have "\<forall>l. Some x = Some l \<longrightarrow> StrictVersion E (version l) \<noteq> None" using px by simp
      from Cons.IH[OF D P this, of nightly] show ?thesis using en cnr None by auto
    next
      case (Some l)
      have pl: "StrictVersion E (version l) \<noteq> None" using Cons.prems(3) Some by simp
      let ?l' = "if ver_less (parsed E l) (parsed E x) then Some x else Some l"
      have "\<forall>k. ?l' = Some k \<longrightarrow> StrictVersion E (version k) \<noteq> None" using px pl by simp
      from Cons.IH[OF D P this, of nightly] show ?thesis using en cnr Some sv_less_parsed[OF pl px]
        by auto
    qed
  qed
qed

lemma resolve_inactive_loop_enabled:
  assumes "\<exists>x \<in> set xs. \<not> disabled x"
      and "parseable E (filter is_from_cnr xs)"
      and "\<forall>l. latest = Some l \<longrightarrow> StrictVersion E (version l) \<noteq> None"
  shows "resolve_inactive_loop E xs latest nightly = Inr None"
  using assms
proof (induction xs arbitrary: latest nightly)
  case Nil
  then show ?case by simp
next
  case (Cons x xs)
  show ?case
  proof (cases "disabled x")
    case False
    then show ?thesis by (simp add: is_enabled_pkg_def)
  next
    case dis: True
    then have E1: "\<exists>x \<in> set xs. \<not> disabled x" using Cons.prems(1) by auto
    have P: "parseable E (filter is_from_cnr xs)" using Cons.prems(2) by (auto simp: parseable_def)
    show ?thesis
    proof (cases "is_from_cnr x")
      case False
      then show ?thesis using Cons.IH[OF E1 P Cons.prems(3), of "Some x"] dis
        by (simp add: is_enabled_pkg_def)
    next
      case cnr: True
      have px: "StrictVersion E (version x) \<noteq> None"
        using Cons.prems(2) cnr by (auto simp: parseable_def)
      show ?thesis
      proof (cases latest)
        case None
        have "\<forall>l. Some x = Some l \<longrightarrow> StrictVersion E (version l) \<noteq> None" using px by simp
        from Cons.IH[OF E1 P this, of nightly] show ?thesis using dis cnr None 
          by (simp add: is_enabled_pkg_def)
      next
        case (Some l)
        have pl: "StrictVersion E (version l) \<noteq> None" using Cons.prems(3) Some by simp
        let ?l' = "if ver_less (parsed E l) (parsed E x) then Some x else Some l"
        have "\<forall>k. ?l' = Some k \<longrightarrow> StrictVersion E (version k) \<noteq> None" using px pl by simp
        from Cons.IH[OF E1 P this, of nightly] show ?thesis using dis cnr Some sv_less_parsed[OF pl px]
          by (simp add: is_enabled_pkg_def)
      qed
    qed
  qed
qed

lemma resolve_inactive_loop_not_unknown:
  assumes "\<forall>l. latest = Some l \<longrightarrow> is_from_cnr l"
  shows "resolve_inactive_loop E xs latest nightly \<noteq> Inr (Some ''unknown'')"
  using assms
proof (induction xs arbitrary: latest nightly)
  case Nil
  then show ?case by (auto simp: is_from_cnr_def is_unknown_def split: option.splits)
next
  case (Cons x xs)
  show ?case
  proof (cases "is_enabled_pkg x")
    case True
    then show ?thesis by simp
  next
    case en: False
    show ?thesis
    proof (cases "is_from_cnr x")
      case False
      then show ?thesis using Cons.IH[OF Cons.prems, of "Some x"] en by simp
    next
      case cnr: True
      show ?thesis
      proof (cases latest)
        case None
        have "\<forall>l. Some x = Some l \<longrightarrow> is_from_cnr l" using cnr by simp
        from Cons.IH[OF this, of nightly] show ?thesis using en cnr None by simp
      next
        case (Some l)
        show ?thesis
        proof (cases "sv_less E (version l) (version x)")
          case (Inl e)
          then show ?thesis using en cnr Some by simp
        next
          case (Inr b)
          have "\<forall>k. (if b then Some x else latest) = Some k \<longrightarrow> is_from_cnr k"
            using cnr Cons.prems by simp
          from Cons.IH[OF this, of nightly] show ?thesis using en cnr Some Inr by (cases b) auto
        qed
      qed
    qed
  qed
qed

lemma all_disabled_filter:
  "\<forall>x \<in> set xs. disabled x \<Longrightarrow> filter is_from_cnr xs = disabled_releases xs"
  by (induction xs) (auto simp: disabled_releases_def)

lemma all_disabled_nightlies_nonrel:
  "\<forall>x \<in> set xs. disabled x \<Longrightarrow> disabled_nightlies xs \<noteq> [] \<Longrightarrow> filter (\<lambda>x. \<not> is_from_cnr x) xs \<noteq> []"
  by (induction xs) (auto simp: disabled_nightlies_def kinds_excl split: if_splits)

text \<open>
  Claim C4, as amended. With no version spec, \<open>get_inactive_pack\<close> returns the disabled
  Release instance with the highest version, else a disabled Nightly instance, else a
  disabled Unknown instance, else nothing. \<open>resolve_unspecified_version\<close> in mode
  \<open>inactive\<close>, for an id that is not URL-like and has no enabled instance, returns the
  highest disabled Release version, else \<open>nightly\<close> when a disabled Nightly instance
  exists; it never returns \<open>unknown\<close>. (Version strings of the disabled Releases are
  assumed to parse.)
\<close>

theorem inactive_resolution_priority:
  assumes P: "parseable E (disabled_releases (get_packages_by_name_or_url E d packname))"
  shows "(let ps = get_packages_by_name_or_url E d packname;
              R = disabled_releases ps; N = disabled_nightlies ps; U = disabled_unknowns ps;
              found = get_inactive_pack E d packname None;
              resolved = resolve_unspecified_version E d packname (Some ''inactive'')
          in (R \<noteq> [] \<longrightarrow>
                (\<exists>m \<in> set R. found = Inr (Some m) \<and> (\<forall>y \<in> set R. \<not> ver_less (parsed E m) (parsed E y))))
           \<and> (R = [] \<and> N \<noteq> [] \<longrightarrow> (\<exists>n \<in> set N. found = Inr (Some n)))
           \<and> (R = [] \<and> N = [] \<and> U \<noteq> [] \<longrightarrow> (\<exists>u \<in> set U. found = Inr (Some u)))
           \<and> (R = [] \<and> N = [] \<and> U = [] \<longrightarrow> found = Inr None)
           \<and> (\<not> is_url_like packname \<and> (\<forall>x \<in> set ps. disabled x) \<and> R \<noteq> [] \<longrightarrow>
                (\<exists>m \<in> set R. resolved = Inr (Some (version m))
                     \<and> (\<forall>y \<in> set R. \<not> ver_less (parsed E m) (parsed E y))))
           \<and> (\<not> is_url_like packname \<and> (\<forall>x \<in> set ps. disabled x) \<and> R = [] \<and> N \<noteq> [] \<longrightarrow>
                resolved = Inr (Some ''nightly''))
           \<and> (\<not> is_url_like packname \<longrightarrow> resolved \<noteq> Inr (Some ''unknown'')))"
proof -
  define ps where "ps = get_packages_by_name_or_url E d packname"
  define R where "R = disabled_releases ps"
  define N where "N = disabled_nightlies ps"
  define U where "U = disabled_unknowns ps"
  have PR: "parseable E (disabled_releases ps)" using P by (simp add: ps_def)
  have found: "get_inactive_pack E d packname None =
      Inr (let l = best_release E None R; n = last_or None N; u = last_or None U
           in if l \<noteq> None then l else if n \<noteq> None then n else u)"
    unfolding get_inactive_pack_def ps_def[symmetric] R_def N_def U_def
    by (rule gip_loop[OF PR]) simp
  have lastN: "N \<noteq> [] \<Longrightarrow> last_or None N = Some (last N) \<and> last N \<in> set N" 
    by (simp add: last_or_def)
  have lastU: "U \<noteq> [] \<Longrightarrow> last_or None U = Some (last U) \<and> last U \<in> set U" 
    by (simp add: last_or_def)
  have bestR: "R \<noteq> [] \<Longrightarrow> \<exists>m \<in> set R. best_release E None R = Some m \<and> (\<forall>y \<in> set R. \<not> ver_less (parsed E m) (parsed E y))"
  proof -
    assume "R \<noteq> []"
    then obtain m where m: "best_release E None R = Some m"
      using best_release_None[of E None R] by (cases "best_release E None R") auto
    from best_release_max[OF m] show ?thesis using m by auto
  qed
  have c1: "R \<noteq> [] \<longrightarrow> (\<exists>m \<in> set R. get_inactive_pack E d packname None = Inr (Some m) \<and> (\<forall>y \<in> set R. \<not> ver_less (parsed E m) (parsed E y)))"
    using bestR found by (auto simp: Let_def)
  have c2: "R = [] \<and> N \<noteq> [] \<longrightarrow> (\<exists>n \<in> set N. get_inactive_pack E d packname None = Inr (Some n))"
    using found lastN by (auto simp: Let_def)
  have c3: "R = [] \<and> N = [] \<and> U \<noteq> [] \<longrightarrow> (\<exists>u \<in> set U. get_inactive_pack E d packname None = Inr (Some u))"
    using found lastU by (auto simp: Let_def last_or_def)
  have c4: "R = [] \<and> N = [] \<and> U = [] \<longrightarrow> get_inactive_pack E d packname None = Inr None"
    using found by (auto simp: Let_def last_or_def)
  have res: "\<not> is_url_like packname \<Longrightarrow> 
     resolve_unspecified_version E d packname (Some ''inactive'') = resolve_inactive_loop E ps None None"
    by (simp add: resolve_unspecified_version_def ps_def)
  have resD: "\<forall>x \<in> set ps. disabled x \<Longrightarrow> resolve_inactive_loop E ps None None =
         Inr (case best_release E None R of
                Some m \<Rightarrow> Some (version m)
              | None \<Rightarrow> if last_or None (filter (\<lambda>x. \<not> is_from_cnr x) ps) \<noteq> None
                        then Some ''nightly'' else None)"
  proof -
    assume D: "\<forall>x \<in> set ps. disabled x"
    have "parseable E (filter is_from_cnr ps)" using PR all_disabled_filter[OF D] by simp
    from resolve_inactive_loop_eq[OF D this, of None None] show ?thesis
      using all_disabled_filter[OF D] by (simp add: R_def)
  qed
  have c5: "\<not> is_url_like packname \<and> (\<forall>x \<in> set ps. disabled x) \<and> R \<noteq> [] \<longrightarrow>
                (\<exists>m \<in> set R. resolve_unspecified_version E d packname (Some ''inactive'') = Inr (Some (version m))
                     \<and> (\<forall>y \<in> set R. \<not> ver_less (parsed E m) (parsed E y)))"
  proof (intro impI, elim conjE)
    assume a: "\<not> is_url_like packname" "\<forall>x \<in> set ps. disabled x" "R \<noteq> []"
    from bestR[OF a(3)] obtain m where m: "m \<in> set R" "best_release E None R = Some m"
      "\<forall>y \<in> set R. \<not> ver_less (parsed E m) (parsed E y)" by blast
    have "resolve_unspecified_version E d packname (Some ''inactive'') = Inr (Some (version m))"
      using res[OF a(1)] resD[OF a(2)] m(2) by simp
    then show "\<exists>m \<in> set R. resolve_unspecified_version E d packname (Some ''inactive'') = Inr (Some (version m))
                     \<and> (\<forall>y \<in> set R. \<not> ver_less (parsed E m) (parsed E y))"
      using m by blast
  qed
  have c6: "\<not> is_url_like packname \<and> (\<forall>x \<in> set ps. disabled x) \<and> R = [] \<and> N \<noteq> [] \<longrightarrow>
                resolve_unspecified_version E d packname (Some ''inactive'') = Inr (Some ''nightly'')"
    using res resD all_disabled_nightlies_nonrel[of ps] by (auto simp: N_def last_or_def)
  have c7: "\<not> is_url_like packname \<longrightarrow> resolve_unspecified_version E d packname (Some ''inactive'') \<noteq> Inr (Some ''unknown'')"
    using resolve_inactive_loop_not_unknown[of None E ps None]
    by (simp add: resolve_unspecified_version_def ps_def)
  show ?thesis
    unfolding Let_def ps_def[symmetric] R_def[symmetric] N_def[symmetric] U_def[symmetric]
    using c1 c2 c3 c4 c5 c6 c7 by blast
qed

theorem inactive_resolution_priority_witness:
  "parseable example_env
     (disabled_releases (get_packages_by_name_or_url example_env (reload example_env fs_three_disabled) ''p''))
   \<and> \<not> is_url_like ''p''
   \<and> list_all disabled (get_packages_by_name_or_url example_env (reload example_env fs_three_disabled) ''p'')
   \<and> map version (disabled_releases
        (get_packages_by_name_or_url example_env (reload example_env fs_three_disabled) ''p'')) = [''1.0.0'', ''1.0.2'']
   \<and> resolve_unspecified_version example_env (reload example_env fs_three_disabled) ''p'' (Some ''inactive'')
       = Inr (Some ''1.0.2'')"
proof -
  let ?d = "reload example_env fs_three_disabled"
  let ?ps = "get_packages_by_name_or_url example_env ?d ''p''"
  have h: "parseable example_env (disabled_releases ?ps)" by code_simp
  have u: "\<not> is_url_like ''p''" by code_simp
  have a: "\<forall>x \<in> set ?ps. disabled x" by code_simp
  have R: "disabled_releases ?ps =
     [\<lparr>pkg_id = ''p'', fullpath = Disabled ''p@1_0_0'', disabled = True, version = ''1.0.0'', repo_url = None\<rparr>,
      \<lparr>pkg_id = ''p'', fullpath = Disabled ''p@1_0_2'', disabled = True, version = ''1.0.2'', repo_url = None\<rparr>]"
    by code_simp
  have v: "map version (disabled_releases ?ps) = [''1.0.0'', ''1.0.2'']" by (simp add: R)
  have less: "ver_less (parsed example_env \<lparr>pkg_id = ''p'', fullpath = Disabled ''p@1_0_0'', disabled = True, version = ''1.0.0'', repo_url = None\<rparr>)
      (parsed example_env \<lparr>pkg_id = ''p'', fullpath = Disabled ''p@1_0_2'', disabled = True, version = ''1.0.2'', repo_url = None\<rparr>)"
    by code_simp
  from inactive_resolution_priority[OF h] u a R
  obtain m where m: "m \<in> set (disabled_releases ?ps)"
     "resolve_unspecified_version example_env ?d ''p'' (Some ''inactive'') = Inr (Some (version m))"
     "\<forall>y \<in> set (disabled_releases ?ps). \<not> ver_less (parsed example_env m) (parsed example_env y)"
    unfolding Let_def by (metis list.distinct(1))
  have "version m = ''1.0.2''" using m(1,3) less unfolding R by auto
  have a': "list_all disabled ?ps" using a by (simp add: list_all_iff)
  show ?thesis using h u a' v m(2) \<open>version m = ''1.0.2''\<close> by simp
qed

text \<open>
  The claim as stated fails: with a single disabled Unknown instance the resolver answers
  \<open>nightly\<close>, and with an enabled instance next to a disabled Release it answers
  \<open>None\<close>.
\<close>

theorem inactive_resolution_counterexample:
  "map version (get_packages_by_name_or_url example_env (reload example_env fs_unknown_only) ''p'') = [''unknown'']
   \<and> resolve_unspecified_version example_env (reload example_env fs_unknown_only) ''p'' (Some ''inactive'')
       = Inr (Some ''nightly'')
   \<and> map version (disabled_releases
        (get_packages_by_name_or_url example_env (reload example_env fs_active_and_disabled) ''p'')) = [''1.0.2'']
   \<and> resolve_unspecified_version example_env (reload example_env fs_active_and_disabled) ''p'' (Some ''inactive'')
       = Inr None"
  by code_simp

section \<open>Disable\<close>

lemma lookup_del_entry: "map_of (del_entry n xs) m = (if m = n then None else map_of xs m)"
  by (induction xs) (auto simp: del_entry_def)

lemma lookup_fs_remove: "fs_lookup (fs_remove f p) q = (if q = p then None else fs_lookup f q)"
  by (cases p; cases q) (auto simp: lookup_del_entry)

lemma lookup_fs_create: "fs_lookup (fs_create f p c) q = (if q = p then Some c else fs_lookup f q)"
  by (cases p; cases q) (auto simp: lookup_del_entry map_add_def split: option.splits)

lemma unified_disable_moves:
  assumes a: "last_opt (filter is_enabled_pkg (get_packages_by_name_or_url E d packname)) = Some a"
      and c: "fs_lookup f (fullpath a) = Some c"
      and p: "plain_name (loc_name (disable_to_path E f packname a))"
      and n: "fullpath a \<noteq> disable_to_path E f packname a"
  shows "\<exists>f'. unified_disable E d f packname
           = (Returned ((ManagedResult ''disable'')\<lparr>items := [Moved (fullpath a) (disable_to_path E f packname a)]\<rparr>), f')
         \<and> fs_lookup f' (disable_to_path E f packname a) = Some c
         \<and> fs_lookup f' (fullpath a) = None
         \<and> (\<forall>q. q \<noteq> fullpath a \<and> q \<noteq> disable_to_path E f packname a \<longrightarrow> fs_lookup f' q = fs_lookup f q)"
proof -
  let ?to = "disable_to_path E f packname a"
  let ?f1 = "if fs_lookup f ?to \<noteq> None then fs_remove f ?to else f"
  have ne: "get_packages_by_name_or_url E d packname \<noteq> []"
    using a by (auto simp: last_opt_def split: if_splits)
  have l1: "fs_lookup ?f1 (fullpath a) = Some c" using c n by (simp add: lookup_fs_remove)
  have l2: "fs_lookup ?f1 ?to = None" by (auto simp: lookup_fs_remove)
  have mv: "move ?f1 (fullpath a) ?to = Inr (fs_create (fs_remove ?f1 (fullpath a)) ?to c)"
    unfolding move_def using l1 l2 p n by simp
  have u: "unified_disable E d f packname
           = (Returned ((ManagedResult ''disable'')\<lparr>items := [Moved (fullpath a) ?to]\<rparr>),
              fs_create (fs_remove ?f1 (fullpath a)) ?to c)"
    unfolding unified_disable_def Let_def using a ne mv by (simp add: last_opt_def)
  show ?thesis
    apply (rule exI[of _ "fs_create (fs_remove ?f1 (fullpath a)) ?to c"])
    using u n by (auto simp: lookup_fs_create lookup_fs_remove)
qed

text \<open>
  Claim C7, as amended. \<open>unified_disable\<close> returns a \<open>skip\<close> result with message
  \<open>Not installed\<close> when the lookup finds no instance of the id, and a \<open>skip\<close> result
  with message \<open>Already disabled\<close> when it finds instances but none is enabled. Both
  results carry the success flag, and the file system is left as it was.
\<close>

theorem disable_nothing_to_do:
  "(get_packages_by_name_or_url E d packname = [] \<longrightarrow>
      unified_disable E d f packname
        = (Returned (with_msg (ManagedResult ''skip'') ''Not installed''), f))
   \<and> (get_packages_by_name_or_url E d packname \<noteq> []
        \<and> list_all disabled (get_packages_by_name_or_url E d packname) \<longrightarrow>
      unified_disable E d f packname
        = (Returned (with_msg (ManagedResult ''skip'') ''Already disabled''), f))
   \<and> succeeded (Returned (with_msg (ManagedResult ''skip'') ''Not installed''))
   \<and> succeeded (Returned (with_msg (ManagedResult ''skip'') ''Already disabled''))"
proof -
  have "list_all disabled xs \<Longrightarrow> filter is_enabled_pkg xs = []" for xs
    by (induction xs) (auto simp: is_enabled_pkg_def)
  then show ?thesis
    by (auto simp: unified_disable_def Let_def last_opt_def with_msg_def ManagedResult_def succeeded_def)
qed

theorem disable_nothing_to_do_witness:
  "get_packages_by_name_or_url example_env (reload example_env fs_empty) ''p'' = []
   \<and> unified_disable example_env (reload example_env fs_empty) fs_empty ''p''
       = (Returned (with_msg (ManagedResult ''skip'') ''Not installed''), fs_empty)
   \<and> get_packages_by_name_or_url example_env (reload example_env fs_three_disabled) ''p'' \<noteq> []
   \<and> list_all disabled (get_packages_by_name_or_url example_env (reload example_env fs_three_disabled) ''p'')
   \<and> unified_disable example_env (reload example_env fs_three_disabled) fs_three_disabled ''p''
       = (Returned (with_msg (ManagedResult ''skip'') ''Already disabled''), fs_three_disabled)"
proof -
  have a: "get_packages_by_name_or_url example_env (reload example_env fs_empty) ''p'' = []"
    by code_simp
  have b: "get_packages_by_name_or_url example_env (reload example_env fs_three_disabled) ''p'' \<noteq> []"
    by code_simp
  have c: "list_all disabled (get_packages_by_name_or_url example_env (reload example_env fs_three_disabled) ''p'')"
    by code_simp
  show ?thesis
    using a b c
      disable_nothing_to_do[of example_env "reload example_env fs_empty" "''p''" fs_empty]
      disable_nothing_to_do[of example_env "reload example_env fs_three_disabled" "''p''" fs_three_disabled]
    by blast
qed

text \<open>
  The claim as stated fails: for an id without any instance the result is not an error.
\<close>

theorem disable_not_installed_counterexample:
  "get_packages_by_name_or_url example_env (reload example_env fs_empty) ''p'' = []
   \<and> succeeded (fst (unified_disable example_env (reload example_env fs_empty) fs_empty ''p''))"
  by code_simp

text \<open>
  Claim C10. When the inactive slot computed by \<open>unified_disable\<close> already exists, the
  operation still succeeds: the directory that was in the slot is deleted and the enabled
  directory takes its place.
\<close>

theorem disable_replaces_existing_slot:
  assumes "last_opt (filter is_enabled_pkg (get_packages_by_name_or_url E d packname)) = Some a"
      and "fs_lookup f (fullpath a) = Some c"
      and "fs_lookup f (disable_to_path E f packname a) = Some old"
      and "plain_name (loc_name (disable_to_path E f packname a))"
      and "fullpath a \<noteq> disable_to_path E f packname a"
  shows "\<exists>r f'. unified_disable E d f packname = (Returned r, f')
           \<and> action r = ''disable'' \<and> result r
           \<and> fs_lookup f' (disable_to_path E f packname a) = Some c
           \<and> fs_lookup f' (fullpath a) = None"
proof -
  from unified_disable_moves[OF assms(1,2,4,5)] obtain f' where
    "unified_disable E d f packname
       = (Returned ((ManagedResult ''disable'')\<lparr>items := [Moved (fullpath a) (disable_to_path E f packname a)]\<rparr>), f')"
    "fs_lookup f' (disable_to_path E f packname a) = Some c"
    "fs_lookup f' (fullpath a) = None" by blast
  then show ?thesis by (simp add: ManagedResult_def)
qed

theorem disable_replaces_existing_slot_witness:
  "last_opt (filter is_enabled_pkg (get_packages_by_name_or_url example_env (reload example_env fs_slot_taken) ''p''))
     = Some pkg_P_101
   \<and> fs_lookup fs_slot_taken (Root ''P'') = Some (release_content ''p'' ''1.0.1'' ''P'')
   \<and> disable_to_path example_env fs_slot_taken ''p'' pkg_P_101 = Disabled ''p@1_0_1''
   \<and> fs_lookup fs_slot_taken (Disabled ''p@1_0_1'') = Some (nightly_content ''https://github.com/other/q'')
   \<and> succeeded (fst (unified_disable example_env (reload example_env fs_slot_taken) fs_slot_taken ''p''))
   \<and> fs_lookup (snd (unified_disable example_env (reload example_env fs_slot_taken) fs_slot_taken ''p''))
        (Disabled ''p@1_0_1'') = Some (release_content ''p'' ''1.0.1'' ''P'')
   \<and> fs_lookup (snd (unified_disable example_env (reload example_env fs_slot_taken) fs_slot_taken ''p''))
        (Root ''P'') = None"
proof -
  have a: "last_opt (filter is_enabled_pkg (get_packages_by_name_or_url example_env (reload example_env fs_slot_taken) ''p''))
     = Some pkg_P_101" by code_simp
  have c: "fs_lookup fs_slot_taken (fullpath pkg_P_101) = Some (release_content ''p'' ''1.0.1'' ''P'')" by code_simp
  have t: "disable_to_path example_env fs_slot_taken ''p'' pkg_P_101 = Disabled ''p@1_0_1''" by code_simp
  have old: "fs_lookup fs_slot_taken (disable_to_path example_env fs_slot_taken ''p'' pkg_P_101)
      = Some (nightly_content ''https://github.com/other/q'')" by code_simp
  have p: "plain_name (loc_name (disable_to_path example_env fs_slot_taken ''p'' pkg_P_101))" by code_simp
  have n: "fullpath pkg_P_101 \<noteq> disable_to_path example_env fs_slot_taken ''p'' pkg_P_101" by code_simp
  have fp: "fullpath pkg_P_101 = Root ''P''" by (simp add: pkg_P_101_def)
  from disable_replaces_existing_slot[OF a c old p n] obtain r f' where
    r: "unified_disable example_env (reload example_env fs_slot_taken) fs_slot_taken ''p'' = (Returned r, f')"
       "result r" "fs_lookup f' (disable_to_path example_env fs_slot_taken ''p'' pkg_P_101)
          = Some (release_content ''p'' ''1.0.1'' ''P'')"
       "fs_lookup f' (fullpath pkg_P_101) = None" by blast
  show ?thesis using a c t old r fp by (simp add: succeeded_def)
qed

text \<open>
  Claim C6, as amended. \<open>unified_disable\<close> moves the last enabled instance the lookup
  finds to \<open>.disabled/<prefix>@<tag>\<close>. The prefix is the normalized last path
  component of the requested id, or, for a URL-like id, the lower-cased name of the
  enabled directory. The tag is the version read from the metadata on disk at that
  moment when there is one, and otherwise the version cached in the index (\<open>nightly\<close>
  for a Nightly instance, \<open>unknown\<close> for an Unknown one), with every dot replaced by an
  underscore.
\<close>

theorem disable_slot_name:
  assumes "last_opt (filter is_enabled_pkg (get_packages_by_name_or_url E d packname)) = Some a"
      and "fs_lookup f (fullpath a) = Some c"
      and "plain_name (loc_name (disable_to_path E f packname a))"
      and "fullpath a \<noteq> disable_to_path E f packname a"
  shows "\<exists>r f'. unified_disable E d f packname = (Returned r, f') \<and> result r
           \<and> fs_lookup f' (fullpath a) = None
           \<and> fs_lookup f'
                (Disabled ((if is_url_like packname then lower (loc_name (fullpath a))
                            else normalize_package_name E
                                   (if CHR ''/'' \<in> set packname then basename packname else packname))
                           @ ''@''
                           @ replace_char CHR ''.'' CHR ''_''
                               (case read_cnr_info c of
                                  Some info \<Rightarrow> if cnr_version info \<noteq> [] then cnr_version info else version a
                                | None \<Rightarrow> version a)))
               = Some c"
proof -
  have v: "disable_version f a =
           (case read_cnr_info c of
              Some info \<Rightarrow> if cnr_version info \<noteq> [] then cnr_version info else version a
            | None \<Rightarrow> version a)"
    using assms(2) by (auto simp: disable_version_def get_installed_version_def split: option.splits)
  have t: "disable_to_path E f packname a =
        Disabled ((if is_url_like packname then lower (loc_name (fullpath a))
                            else normalize_package_name E
                                   (if CHR ''/'' \<in> set packname then basename packname else packname))
                           @ ''@''
                           @ replace_char CHR ''.'' CHR ''_''
                               (case read_cnr_info c of
                                  Some info \<Rightarrow> if cnr_version info \<noteq> [] then cnr_version info else version a
                                | None \<Rightarrow> version a))"
    unfolding disable_to_path_def disable_folder_name_def v by simp
  from unified_disable_moves[OF assms] obtain f' where
    "unified_disable E d f packname
       = (Returned ((ManagedResult ''disable'')\<lparr>items := [Moved (fullpath a) (disable_to_path E f packname a)]\<rparr>), f')"
    "fs_lookup f' (disable_to_path E f packname a) = Some c"
    "fs_lookup f' (fullpath a) = None" by blast
  then show ?thesis unfolding t by (simp add: ManagedResult_def)
qed

theorem disable_slot_name_witness:
  "last_opt (filter is_enabled_pkg (get_packages_by_name_or_url example_env [(''p'', [pkg_P_stale])] ''p''))
     = Some pkg_P_stale
   \<and> fs_lookup fs_slot_taken (Root ''P'') = Some (release_content ''p'' ''1.0.1'' ''P'')
   \<and> succeeded (fst (unified_disable example_env [(''p'', [pkg_P_stale])] fs_slot_taken ''p''))
   \<and> fs_lookup (snd (unified_disable example_env [(''p'', [pkg_P_stale])] fs_slot_taken ''p''))
        (Disabled ''p@1_0_1'') = Some (release_content ''p'' ''1.0.1'' ''P'')"
proof -
  let ?d = "[(''p'', [pkg_P_stale])]"
  have a: "last_opt (filter is_enabled_pkg (get_packages_by_name_or_url example_env ?d ''p''))
     = Some pkg_P_stale" by code_simp
  have c: "fs_lookup fs_slot_taken (fullpath pkg_P_stale) = Some (release_content ''p'' ''1.0.1'' ''P'')" by code_simp
  have p: "plain_name (loc_name (disable_to_path example_env fs_slot_taken ''p'' pkg_P_stale))" by code_simp
  have n: "fullpath pkg_P_stale \<noteq> disable_to_path example_env fs_slot_taken ''p'' pkg_P_stale" by code_simp
  have nm: "(if is_url_like ''p'' then lower (loc_name (fullpath pkg_P_stale))
                            else normalize_package_name example_env
                                   (if CHR ''/'' \<in> set ''p'' then basename ''p'' else ''p''))
                           @ ''@''
                           @ replace_char CHR ''.'' CHR ''_''
                               (case read_cnr_info (release_content ''p'' ''1.0.1'' ''P'') of
                                  Some info \<Rightarrow> if cnr_version info \<noteq> [] then cnr_version info else version pkg_P_stale
                                | None \<Rightarrow> version pkg_P_stale) = ''p@1_0_1''" by code_simp
  have fp: "fullpath pkg_P_stale = Root ''P''" by (simp add: pkg_P_stale_def)
  from disable_slot_name[OF a c p n] obtain r f' where
    r: "unified_disable example_env ?d fs_slot_taken ''p'' = (Returned r, f')" "result r"
       "fs_lookup f' (Disabled ''p@1_0_1'') = Some (release_content ''p'' ''1.0.1'' ''P'')"
    unfolding nm by blast
  show ?thesis using a c r fp by (simp add: succeeded_def)
qed

text \<open>
  The claim as stated fails: an Unknown instance has no metadata to read and is filed
  under the cached \<open>unknown\<close>, and for the id \<open>owner/P\<close> the prefix is \<open>p\<close>, not the
  normalized id.
\<close>

theorem disable_slot_name_counterexample:
  "map version (get_packages_by_name_or_url example_env (reload example_env fs_unknown_active) ''P'') = [''unknown'']
   \<and> get_installed_version fs_unknown_active (Root ''P'') = None
   \<and> snd (unified_disable example_env (reload example_env fs_unknown_active) fs_unknown_active ''P'')
       = \<lparr>root_dirs = [], disabled_dirs = [(''p@unknown'', unknown_content)]\<rparr>
   \<and> normalize_package_name example_env ''owner/P'' = ''owner/p''
   \<and> snd (unified_disable example_env (reload example_env fs_nightly_active) fs_nightly_active ''owner/P'')
       = \<lparr>root_dirs = [], disabled_dirs = [(''p@nightly'', nightly_content ''https://github.com/owner/P'')]\<rparr>"
  by code_simp

section \<open>The index as a filter of the scan\<close>

lemma index_get_append:
  "index_get (index_append k v d) k' = index_get d k' @ (if k = k' then [v] else [])"
  by (induction d) (auto simp: index_get_def)

lemma index_get_add:
  "index_get (index_add E path c d) k =
     index_get d k @ (if indexed_under E k (from_fullpath E path c) then [from_fullpath E path c] else [])"
  by (auto simp: index_add_def Let_def index_get_append indexed_under_def)

lemma index_get_reload_root:
  "index_get (reload_root E xs d) k =
     index_get d k @ filter (indexed_under E k)
       (map (\<lambda>e. from_fullpath E (Root (fst e)) (snd e))
            (filter (\<lambda>e. fst e \<noteq> ''__pycache__'' \<and> fst e \<noteq> ''.disabled'') xs))"
  by (induction xs arbitrary: d) (auto simp: index_get_add)

lemma index_get_reload_disabled:
  "index_get (reload_disabled E xs d) k =
     index_get d k @ filter (indexed_under E k)
       (map (\<lambda>e. from_fullpath E (Disabled (fst e)) (snd e)) xs)"
  by (induction xs arbitrary: d) (auto simp: index_get_add)

lemma index_get_reload: "index_get (reload E f) k = filter (indexed_under E k) (scan E f)"
proof -
  have e: "index_get [] k = []" by (simp add: index_get_def)
  show ?thesis
    by (simp add: reload_def scan_def index_get_reload_root index_get_reload_disabled e)
qed

lemma fullpath_from_fullpath: "fullpath (from_fullpath E path c) = path"
  by (auto simp: from_fullpath_def Let_def split: option.splits)

lemma scan_fs_remove: "scan E (fs_remove f p) = filter (\<lambda>x. fullpath x \<noteq> p) (scan E f)"
proof (cases p)
  case (Root n)
  then show ?thesis
    by (auto simp: scan_def del_entry_def filter_map comp_def fullpath_from_fullpath
             intro!: arg_cong2[where f="(@)"] filter_cong arg_cong[where f="map _"])
next
  case (Disabled n)
  then show ?thesis
    by (auto simp: scan_def del_entry_def filter_map comp_def fullpath_from_fullpath
             intro!: arg_cong2[where f="(@)"] filter_cong arg_cong[where f="map _"])
qed

lemma scan_fold_remove:
  "scan E (fold (\<lambda>x g. fs_remove g (fullpath x)) ps f)
     = filter (\<lambda>x. fullpath x \<notin> fullpath ` set ps) (scan E f)"
proof (induction ps arbitrary: f)
  case Nil
  then show ?case by simp
next
  case (Cons a ps)
  show ?case by (simp add: Cons.IH scan_fs_remove)
qed

section \<open>Uninstall\<close>

lemma lookup_fold_remove:
  "fs_lookup (fold (\<lambda>x g. fs_remove g (fullpath x)) ps f) q
     = (if q \<in> fullpath ` set ps then None else fs_lookup f q)"
  by (induction ps arbitrary: f) (auto simp: lookup_fs_remove)

lemma lookup_split:
  "get_packages_by_name_or_url E d packname
     = index_get d packname @ (case followed_key E d packname of None \<Rightarrow> [] | Some k \<Rightarrow> index_get d k)"
  by (simp add: get_packages_by_name_or_url_def followed_key_def Let_def)

lemma index_get_after_removal:
  "index_get (reload E (fold (\<lambda>x g. fs_remove g (fullpath x)) ps f)) k
     = filter (\<lambda>x. fullpath x \<notin> fullpath ` set ps) (index_get (reload E f) k)"
  by (simp add: index_get_reload scan_fold_remove) (metis)

lemma filter_removed_empty:
  "set xs \<subseteq> set ps \<Longrightarrow> filter (\<lambda>x. fullpath x \<notin> fullpath ` set ps) xs = []"
  by (induction xs) auto

text \<open>
  Claim C9. On a freshly scanned index, \<open>unified_uninstall\<close> removes every directory
  the lookup finds for the id, enabled or disabled and whatever its version, and leaves
  all other directories alone. Afterwards no directory is indexed under the id, and the
  lookup on the rescanned index is empty (the lookup may follow a repository URL named
  by the registry: this is stated for a lookup that follows the same URL as before, or
  none). When the lookup finds nothing, the result is the skip \<open>Not installed\<close> and
  nothing is deleted.
\<close>

theorem uninstall_removes_all:
  "(let d = reload E f;
        ps = get_packages_by_name_or_url E d packname;
        out = fst (unified_uninstall E d f packname);
        f' = snd (unified_uninstall E d f packname);
        d' = reload E f'
    in (ps = [] \<longrightarrow> out = Returned (with_msg (ManagedResult ''skip'') ''Not installed'') \<and> f' = f)
     \<and> (ps \<noteq> [] \<longrightarrow>
           out = Returned ((ManagedResult ''uninstall'')
                   \<lparr>items := map (\<lambda>x. Removed (version x) (fullpath x)) ps\<rparr>))
     \<and> succeeded out
     \<and> (\<forall>x \<in> set ps. fs_lookup f' (fullpath x) = None)
     \<and> (\<forall>q. q \<notin> fullpath ` set ps \<longrightarrow> fs_lookup f' q = fs_lookup f q)
     \<and> filter (indexed_under E packname) (scan E f') = []
     \<and> (followed_key E d' packname = None \<or> followed_key E d' packname = followed_key E d packname
          \<longrightarrow> get_packages_by_name_or_url E d' packname = []))"
proof -
  define d where "d = reload E f"
  define ps where "ps = get_packages_by_name_or_url E d packname"
  define f' where "f' = fold (\<lambda>x g. fs_remove g (fullpath x)) ps f"
  define d' where "d' = reload E f'"
  have un: "unified_uninstall E d f packname =
      (if ps = [] then Returned (with_msg (ManagedResult ''skip'') ''Not installed'')
       else Returned ((ManagedResult ''uninstall'')\<lparr>items := map (\<lambda>x. Removed (version x) (fullpath x)) ps\<rparr>), f')"
    by (simp add: unified_uninstall_def Let_def ps_def f'_def)
  have f'eq: "snd (unified_uninstall E d f packname) = f'" using un by simp
  have c1: "ps = [] \<longrightarrow> fst (unified_uninstall E d f packname) = Returned (with_msg (ManagedResult ''skip'') ''Not installed'') \<and> f' = f"
    using un by (simp add: f'_def)
  have c2: "ps \<noteq> [] \<longrightarrow> fst (unified_uninstall E d f packname) = Returned ((ManagedResult ''uninstall'')
                   \<lparr>items := map (\<lambda>x. Removed (version x) (fullpath x)) ps\<rparr>)"
    using un by simp
  have c3: "succeeded (fst (unified_uninstall E d f packname))"
    using un by (simp add: succeeded_def with_msg_def ManagedResult_def)
  have c4: "\<forall>x \<in> set ps. fs_lookup f' (fullpath x) = None"
    by (simp add: f'_def lookup_fold_remove)
  have c5: "\<forall>q. q \<notin> fullpath ` set ps \<longrightarrow> fs_lookup f' q = fs_lookup f q"
    by (simp add: f'_def lookup_fold_remove)
  have direct: "set (index_get d packname) \<subseteq> set ps"
    by (auto simp: ps_def lookup_split)
  have after: "index_get d' k = filter (\<lambda>x. fullpath x \<notin> fullpath ` set ps) (index_get d k)" for k
    unfolding d'_def f'_def d_def by (rule index_get_after_removal)
  have c6': "index_get d' packname = []"
    unfolding after using direct by (rule filter_removed_empty)
  have c6: "filter (indexed_under E packname) (scan E f') = []"
    using c6' by (simp add: d'_def index_get_reload)
  have c7: "followed_key E d' packname = None \<or> followed_key E d' packname = followed_key E d packname
          \<longrightarrow> get_packages_by_name_or_url E d' packname = []"
  proof
    assume h: "followed_key E d' packname = None \<or> followed_key E d' packname = followed_key E d packname"
    show "get_packages_by_name_or_url E d' packname = []"
    proof (cases "followed_key E d' packname")
      case None
      then show ?thesis by (simp add: lookup_split[of E d'] c6')
    next
      case (Some k)
      with h have k: "followed_key E d packname = Some k" by simp
      have "set (index_get d k) \<subseteq> set ps" using k by (auto simp: ps_def lookup_split)
      then have "index_get d' k = []" unfolding after by (rule filter_removed_empty)
      then show ?thesis using Some by (simp add: lookup_split[of E d'] c6')
    qed
  qed
  show ?thesis
    unfolding Let_def d_def[symmetric] ps_def[symmetric] f'eq d'_def[symmetric]
    using c1 c2 c3 c4 c5 c6 c7 by blast
qed

theorem uninstall_removes_all_witness:
  "map fullpath (get_packages_by_name_or_url example_env (reload example_env fs_mixed) ''p'')
     = [Root ''P'', Disabled ''p@1_0_1'', Disabled ''p@nightly'']
   \<and> succeeded (fst (unified_uninstall example_env (reload example_env fs_mixed) fs_mixed ''p''))
   \<and> snd (unified_uninstall example_env (reload example_env fs_mixed) fs_mixed ''p'')
       = \<lparr>root_dirs = [(''Q'', release_content ''q'' ''0.1.0'' ''Q'')], disabled_dirs = []\<rparr>
   \<and> followed_key example_env
        (reload example_env (snd (unified_uninstall example_env (reload example_env fs_mixed) fs_mixed ''p''))) ''p''
       = None
   \<and> get_packages_by_name_or_url example_env
        (reload example_env (snd (unified_uninstall example_env (reload example_env fs_mixed) fs_mixed ''p''))) ''p''
       = []
   \<and> get_packages_by_name_or_url example_env (reload example_env fs_empty) ''p'' = []
   \<and> unified_uninstall example_env (reload example_env fs_empty) fs_empty ''p''
       = (Returned (with_msg (ManagedResult ''skip'') ''Not installed''), fs_empty)"
proof -
  let ?d = "reload example_env fs_mixed"
  let ?u = "unified_uninstall example_env ?d fs_mixed ''p''"
  have ps: "map fullpath (get_packages_by_name_or_url example_env ?d ''p'')
     = [Root ''P'', Disabled ''p@1_0_1'', Disabled ''p@nightly'']" by code_simp
  have f': "snd ?u = \<lparr>root_dirs = [(''Q'', release_content ''q'' ''0.1.0'' ''Q'')], disabled_dirs = []\<rparr>"
    by code_simp
  have k: "followed_key example_env (reload example_env (snd ?u)) ''p'' = None"
    by code_simp
  have e: "get_packages_by_name_or_url example_env (reload example_env fs_empty) ''p'' = []" by code_simp
  have s: "snd (unified_uninstall example_env (reload example_env fs_empty) fs_empty ''p'') = fs_empty"
    by code_simp
  from uninstall_removes_all[of example_env fs_mixed "''p''"] k
  have a: "succeeded (fst ?u)" "get_packages_by_name_or_url example_env (reload example_env (snd ?u)) ''p'' = []"
    unfolding Let_def by blast+
  from uninstall_removes_all[of example_env fs_empty "''p''"] e
  have b: "fst (unified_uninstall example_env (reload example_env fs_empty) fs_empty ''p'')
             = Returned (with_msg (ManagedResult ''skip'') ''Not installed'')"
    unfolding Let_def by blast
  have b': "unified_uninstall example_env (reload example_env fs_empty) fs_empty ''p''
       = (Returned (with_msg (ManagedResult ''skip'') ''Not installed''), fs_empty)"
    using b s by (metis prod.collapse)
  show ?thesis using ps f' k e a b' by simp
qed

section \<open>Post-install step\<close>

lemma mr_simps:
  "result (ManagedResult a)" "postinstall (ManagedResult a) = None"
  "postinstall (fail r m) = postinstall r" "\<not> result (fail r m)"
  by (simp_all add: ManagedResult_def fail_def)
















lemma gated_mainI: "gated E (o1, f1) (o2, f2) \<Longrightarrow> gated_main E (o1, d1, f1) (o2, d2, f2)"
  by (simp add: mr_simps gated_main_def)



































section \<open>Enable, then disable\<close>

text \<open>
  Claim C3, as amended. Let a disabled instance found for (id, v) sit in
  \<open>.disabled/n\<close>, let the active directory \<open>t\<close> named by its metadata (or by the id) be
  free, and let \<open>n\<close> be the slot that \<open>unified_disable\<close> computes for it once it is
  enabled. Then \<open>unified_enable\<close> followed, after a rescan, by \<open>unified_disable\<close> both
  succeed and leave every directory, enabled or disabled, under the name and with
  the content it had before.
\<close>

theorem enable_then_disable_restores:
  assumes en: "is_enabled E d packname (Some v) = Inr False"
      and dis: "is_disabled E d packname (Some v) = Inr True"
      and x: "get_inactive_pack E d packname (Some v) = Inr (Some x)"
      and px: "fullpath x = Disabled n"
      and c: "fs_lookup f (Disabled n) = Some c"
      and tp: "enable_to_path f packname x = Root t"
      and plain: "plain_name t" "plain_name n"
      and free: "fs_lookup f (Root t) = None"
      and f1: "f1 = snd (unified_enable E d f packname (Some v))"
      and y: "last_opt (filter is_enabled_pkg (get_packages_by_name_or_url E (reload E f1) packname)) = Some y"
      and py: "fullpath y = Root t"
      and slot: "disable_to_path E f1 packname y = Disabled n"
  shows "succeeded (fst (unified_enable E d f packname (Some v)))
       \<and> fs_lookup f1 (Root t) = Some c \<and> fs_lookup f1 (Disabled n) = None
       \<and> succeeded (fst (unified_disable E (reload E f1) f1 packname))
       \<and> (\<forall>q. fs_lookup (snd (unified_disable E (reload E f1) f1 packname)) q = fs_lookup f q)"
proof -
  have mv: "move f (Disabled n) (Root t) = Inr (fs_create (fs_remove f (Disabled n)) (Root t) c)"
    using c plain(1) free by (simp add: move_def)
  have ue: "unified_enable E d f packname (Some v)
      = (Returned (with_target_path (ManagedResult ''enable'') (Root t)),
         fs_create (fs_remove f (Disabled n)) (Root t) c)"
    using en dis x px tp mv by (simp add: unified_enable_def Let_def)
  have f1': "f1 = fs_create (fs_remove f (Disabled n)) (Root t) c" using f1 ue by simp
  have s1: "succeeded (fst (unified_enable E d f packname (Some v)))"
    using ue by (simp add: succeeded_def with_target_path_def ManagedResult_def)
  have l1: "fs_lookup f1 q = (if q = Root t then Some c else if q = Disabled n then None else fs_lookup f q)" for q
    unfolding f1' lookup_fs_create lookup_fs_remove by simp
  have cy: "fs_lookup f1 (fullpath y) = Some c" using py l1[of "Root t"] by (simp del: fs_lookup.simps)
  have pn: "plain_name (loc_name (disable_to_path E f1 packname y))" using slot plain(2) by simp
  have ne: "fullpath y \<noteq> disable_to_path E f1 packname y" using py slot by simp
  from unified_disable_moves[OF y cy pn ne] obtain f2 where
    ud: "unified_disable E (reload E f1) f1 packname
           = (Returned ((ManagedResult ''disable'')\<lparr>items := [Moved (fullpath y) (disable_to_path E f1 packname y)]\<rparr>), f2)"
    and l2: "fs_lookup f2 (disable_to_path E f1 packname y) = Some c"
            "fs_lookup f2 (fullpath y) = None"
            "\<forall>q. q \<noteq> fullpath y \<and> q \<noteq> disable_to_path E f1 packname y \<longrightarrow> fs_lookup f2 q = fs_lookup f1 q"
    by blast
  have s2: "succeeded (fst (unified_disable E (reload E f1) f1 packname))"
    using ud by (simp add: succeeded_def ManagedResult_def)
  have all: "fs_lookup f2 q = fs_lookup f q" for q
  proof (cases "q = Root t \<or> q = Disabled n")
    case True
    then show ?thesis using l2(1,2) py slot c free by (auto simp del: fs_lookup.simps)
  next
    case False
    then show ?thesis using l2(3) py slot l1[of q] by (simp del: fs_lookup.simps)
  qed
  have a1: "fs_lookup f1 (Root t) = Some c" using l1[of "Root t"] by (simp del: fs_lookup.simps)
  have a2: "fs_lookup f1 (Disabled n) = None" using l1[of "Disabled n"] by (simp del: fs_lookup.simps)
  have a3: "\<forall>q. fs_lookup (snd (unified_disable E (reload E f1) f1 packname)) q = fs_lookup f q"
    using all ud by (simp del: fs_lookup.simps)
  show ?thesis using s1 a1 a2 s2 a3 by blast
qed

theorem enable_then_disable_restores_witness:
  "is_enabled example_env (reload example_env fs_one_disabled) ''p'' (Some ''1.0.2'') = Inr False
   \<and> is_disabled example_env (reload example_env fs_one_disabled) ''p'' (Some ''1.0.2'') = Inr True
   \<and> get_inactive_pack example_env (reload example_env fs_one_disabled) ''p'' (Some ''1.0.2'')
       = Inr (Some pkg_p_102_disabled)
   \<and> fs_lookup fs_one_disabled (Disabled ''p@1_0_2'') = Some (release_content ''p'' ''1.0.2'' ''P'')
   \<and> enable_to_path fs_one_disabled ''p'' pkg_p_102_disabled = Root ''P''
   \<and> fs_lookup fs_one_disabled (Root ''P'') = None
   \<and> fs_lookup (snd (unified_enable example_env (reload example_env fs_one_disabled) fs_one_disabled
                        ''p'' (Some ''1.0.2''))) (Root ''P'')
       = Some (release_content ''p'' ''1.0.2'' ''P'')
   \<and> fs_lookup (snd (unified_disable example_env
                   (reload example_env
                      (snd (unified_enable example_env (reload example_env fs_one_disabled) fs_one_disabled
                              ''p'' (Some ''1.0.2''))))
                   (snd (unified_enable example_env (reload example_env fs_one_disabled) fs_one_disabled
                           ''p'' (Some ''1.0.2'')))
                   ''p'')) (Disabled ''p@1_0_2'')
       = fs_lookup fs_one_disabled (Disabled ''p@1_0_2'')
   \<and> fs_lookup (snd (unified_disable example_env
                   (reload example_env
                      (snd (unified_enable example_env (reload example_env fs_one_disabled) fs_one_disabled
                              ''p'' (Some ''1.0.2''))))
                   (snd (unified_enable example_env (reload example_env fs_one_disabled) fs_one_disabled
                           ''p'' (Some ''1.0.2'')))
                   ''p'')) (Root ''P'')
       = None"
proof -
  let ?E = example_env
  let ?f = fs_one_disabled
  let ?d = "reload ?E ?f"
  let ?f1 = "snd (unified_enable ?E ?d ?f ''p'' (Some ''1.0.2''))"
  have en: "is_enabled ?E ?d ''p'' (Some ''1.0.2'') = Inr False" by code_simp
  have dis: "is_disabled ?E ?d ''p'' (Some ''1.0.2'') = Inr True" by code_simp
  have x: "get_inactive_pack ?E ?d ''p'' (Some ''1.0.2'') = Inr (Some pkg_p_102_disabled)" by code_simp
  have px: "fullpath pkg_p_102_disabled = Disabled ''p@1_0_2''" by (simp add: pkg_p_102_disabled_def)
  have c: "fs_lookup ?f (Disabled ''p@1_0_2'') = Some (release_content ''p'' ''1.0.2'' ''P'')" by code_simp
  have tp: "enable_to_path ?f ''p'' pkg_p_102_disabled = Root ''P''" by code_simp
  have pl: "plain_name ''P''" "plain_name ''p@1_0_2''" by code_simp+
  have free: "fs_lookup ?f (Root ''P'') = None" by code_simp
  have y: "last_opt (filter is_enabled_pkg (get_packages_by_name_or_url ?E (reload ?E ?f1) ''p'')) = Some pkg_P_102"
    by code_simp
  have py: "fullpath pkg_P_102 = Root ''P''" by (simp add: pkg_P_102_def)
  have slot: "disable_to_path ?E ?f1 ''p'' pkg_P_102 = Disabled ''p@1_0_2''" by code_simp
  note t = enable_then_disable_restores[OF en dis x px c tp pl free refl y py slot]
  have a: "fs_lookup ?f1 (Root ''P'') = Some (release_content ''p'' ''1.0.2'' ''P'')" using t by blast
  have b: "\<forall>q. fs_lookup (snd (unified_disable ?E (reload ?E ?f1) ?f1 ''p'')) q = fs_lookup ?f q"
    using t by blast
  have b1: "fs_lookup (snd (unified_disable ?E (reload ?E ?f1) ?f1 ''p'')) (Disabled ''p@1_0_2'')
              = fs_lookup ?f (Disabled ''p@1_0_2'')" using b by blast
  have b2: "fs_lookup (snd (unified_disable ?E (reload ?E ?f1) ?f1 ''p'')) (Root ''P'') = None"
    using b free by (simp del: fs_lookup.simps)
  show ?thesis using en dis x c tp free a b1 b2 by blast
qed

text \<open>
  The claim as stated fails when the disabled directory is not in the slot
  \<open>unified_disable\<close> writes to: a directory disabled in the older layout
  (\<open>custom_nodes/P.disabled\<close>), or in a slot spelled \<open>P@1_0_2\<close>, comes back as
  \<open>.disabled/p@1_0_2\<close>.
\<close>

theorem enable_then_disable_counterexample:
  "map disabled (get_packages_by_name_or_url example_env (reload example_env fs_legacy_disabled) ''p'') = [True]
   \<and> map version (get_packages_by_name_or_url example_env (reload example_env fs_legacy_disabled) ''p'') = [''1.0.2'']
   \<and> snd (unified_disable example_env
            (reload example_env
               (snd (unified_enable example_env (reload example_env fs_legacy_disabled) fs_legacy_disabled
                       ''p'' (Some ''1.0.2''))))
            (snd (unified_enable example_env (reload example_env fs_legacy_disabled) fs_legacy_disabled
                    ''p'' (Some ''1.0.2'')))
            ''p'')
       = \<lparr>root_dirs = [], disabled_dirs = [(''p@1_0_2'', release_content ''p'' ''1.0.2'' ''P'')]\<rparr>
   \<and> map disabled (get_packages_by_name_or_url example_env (reload example_env fs_uppercase_slot) ''p'') = [True]
   \<and> map version (get_packages_by_name_or_url example_env (reload example_env fs_uppercase_slot) ''p'') = [''1.0.2'']
   \<and> snd (unified_disable example_env
            (reload example_env
               (snd (unified_enable example_env (reload example_env fs_uppercase_slot) fs_uppercase_slot
                       ''p'' (Some ''1.0.2''))))
            (snd (unified_enable example_env (reload example_env fs_uppercase_slot) fs_uppercase_slot
                    ''p'' (Some ''1.0.2'')))
            ''p'')
       = \<lparr>root_dirs = [], disabled_dirs = [(''p@1_0_2'', release_content ''p'' ''1.0.2'' ''P'')]\<rparr>"
  by code_simp

section \<open>Install twice\<close>

text \<open>
  An install of a version that the rescanned lookup finds enabled under the normalized
  name is a skip: success, the file system untouched.
\<close>

lemma install_skips_when_enabled:
  assumes "\<not> contains (lower packname) ''comfyui-manager''"
      and "\<not> is_url_like packname"
      and "CHR ''@'' \<notin> set packname"
      and "is_enabled E (reload E f) (normalize_package_name E packname) (Some v) = Inr True"
  shows "install_by_id (Suc n) E d f packname (Some v) return_postinstall
           = Some (Returned (with_target_version (ManagedResult ''skip'') (Some v)), reload E f, f)"
  using assms by (simp add: install_by_id_main_def Let_def)

text \<open>
  Claim C2 fails on the following input. A directory without any marker is called
  \<open>P\<close>, and Release 1.0.2 of \<open>p\<close>, whose metadata name the directory \<open>P\<close>, is
  disabled. The first install of \<open>P\<close> 1.0.2 enables the disabled directory: it is
  moved into the existing directory \<open>P\<close>, and the install reports success. The second
  install, run on the state the first one left (it rescans the directories itself),
  finds no instance of \<open>p\<close> and ends in \<open>cnr_install\<close>, which reports the failure
  \<open>Install path already exists\<close>.
\<close>

theorem install_twice_reports_error:
  "succeeded (install_outcome
     (install_by_id 1 example_env (reload example_env fs_foreign_dir) fs_foreign_dir ''P'' (Some ''1.0.2'') False))
   \<and> after_install
        (install_by_id 1 example_env (reload example_env fs_foreign_dir) fs_foreign_dir ''P'' (Some ''1.0.2'') False)
       = \<lparr>root_dirs = [(''P'', \<lparr>git_url = None, read_cnr_info = None, toml_name = None,
                                 entries = [''nodes.py'', ''p@1_0_2'']\<rparr>)],
          disabled_dirs = []\<rparr>
   \<and> install_outcome
        (install_by_id 1 example_env
           (reload example_env fs_foreign_dir)
           (after_install
              (install_by_id 1 example_env (reload example_env fs_foreign_dir) fs_foreign_dir ''P''
                 (Some ''1.0.2'') False))
           ''P'' (Some ''1.0.2'') False)
       = Returned (fail (ManagedResult ''install-cnr'') ''Install path already exists: /ComfyUI/custom_nodes/P'')
   \<and> \<not> succeeded (install_outcome
        (install_by_id 1 example_env
           (reload example_env fs_foreign_dir)
           (after_install
              (install_by_id 1 example_env (reload example_env fs_foreign_dir) fs_foreign_dir ''P''
                 (Some ''1.0.2'') False))
           ''P'' (Some ''1.0.2'') False))"
  by code_simp

end
